theory Spec2Isabelle
  imports Complex_Main "HOL-Library.Log_Nat"
begin

section \<open>Event-driven order fulfilment: cart, order, payment and product services\<close>

text \<open>
  The four Flask services keep their data in module-level dictionaries and talk to each
  other through \<open>publish_event\<close>. Each route handler is embedded as a function that takes
  the service's state and returns the HTTP result together with the new state. What the
  source draws from its environment is a parameter of the handler: the answer of the
  broker to each publish call (\<open>True\<close> for a 200/204), the hexadecimal digits taken from
  \<open>uuid.uuid4()\<close>, and the string produced by \<open>datetime.utcnow()\<close>.

  Amounts of money are Python floats, that is IEEE 754 binary64 numbers. A finite double
  is modelled by the rational number it is (type \<open>rat\<close>), and every float operation of
  the source by the exact operation followed by \<open>binary64\<close>, the rounding to the nearest
  double with ties to the even mantissa. Infinities and NaN are not modelled: the model
  follows the source as long as no result exceeds the largest double.
\<close>

type_synonym money = rat

definition round_half_even :: "rat \<Rightarrow> int" where
  "round_half_even x =
     (let f = \<lfloor>x\<rfloor>; d = x - of_int f
      in if d < 1 / 2 then f
         else if 1 / 2 < d then f + 1
         else if even f then f else f + 1)"

text \<open>
  \<open>ilog2 x\<close> is the binary exponent of \<open>x\<close>: the integer \<open>k\<close> with
  \<open>2 powi k \<le> |x| < 2 powi (k + 1)\<close>, for \<open>x\<close> other than zero.
\<close>

definition ilog2 :: "rat \<Rightarrow> int" where
  "ilog2 x =
     (let k = bitlen \<bar>fst (quotient_of x)\<bar> - bitlen (snd (quotient_of x))
      in if power_int 2 k \<le> \<bar>x\<bar> then k else k - 1)"

text \<open>
  The nearest double: a mantissa of 53 bits, and the fixed spacing \<open>2 powi (- 1074)\<close>
  of the subnormal numbers below \<open>2 powi (- 1022)\<close>.
\<close>

definition binary64 :: "rat \<Rightarrow> rat" where
  "binary64 x =
     (if x = 0 then 0
      else let q = power_int 2 (max (ilog2 x - 52) (- 1074))
           in of_int (round_half_even (x / q)) * q)"

definition fmul :: "money \<Rightarrow> money \<Rightarrow> money" where
  \<comment> \<open>\<open>a * b\<close> on floats\<close>
  "fmul a b = binary64 (a * b)"

definition fadd :: "money \<Rightarrow> money \<Rightarrow> money" where
  \<comment> \<open>\<open>a + b\<close> on floats\<close>
  "fadd a b = binary64 (a + b)"

text \<open>
  The double written with two decimals: \<open>cents 108\<close> is the literal \<open>1.08\<close>, \<open>cents 599\<close>
  is \<open>5.99\<close>.
\<close>

definition cents :: "int \<Rightarrow> money" where
  "cents n = binary64 (of_int n / 100)"

text \<open>
  \<open>round(x, 2)\<close> on a float: Python rounds the exact value of \<open>x\<close> to two decimals,
  a tie going to the even digit, and returns the double nearest to that decimal.
\<close>

definition py_round2 :: "money \<Rightarrow> money" where
  "py_round2 x = cents (round_half_even (x * 100))"

text \<open>
  \<open>sum(...)\<close> over floats: the additions are made from left to right, starting from
  the integer 0 (as CPython does up to 3.11; later versions carry a correction term
  as well, which can change the last bit of a sum of three or more terms).
\<close>

definition py_sum :: "money list \<Rightarrow> money" where
  "py_sum xs = foldl fadd 0 xs"

definition SHIPPING :: money where
  \<comment> \<open>the literal \<open>5.99\<close> of the order service\<close>
  "SHIPPING = cents 599"

text \<open>
  Truthiness of an optional string or number, as in \<open>if product_id and new_price\<close>:
  a missing key (\<open>.get\<close> gives \<open>None\<close>), the empty string and zero are all false.
\<close>

definition truthy_str :: "string option \<Rightarrow> bool" where
  "truthy_str x = (case x of None \<Rightarrow> False | Some s \<Rightarrow> s \<noteq> [])"

definition truthy_num :: "money option \<Rightarrow> bool" where
  "truthy_num x = (case x of None \<Rightarrow> False | Some p \<Rightarrow> p \<noteq> 0)"

subsection \<open>Data\<close>

text \<open>
  A failed request is \<open>Inl (Error code text)\<close>: the HTTP status code and the text under
  the \<open>error\<close> (or \<open>message\<close>) key of the JSON body. A successful one is
  \<open>Inr (code, body)\<close>.
\<close>

datatype error = Error nat string

record cart_item =
  item_id :: string
  product_id :: string
  product_name :: string
  quantity :: int
  unit_price :: money
  added_at :: string

record cart =
  user_id :: string
  items :: "cart_item list"
  created_at :: string
  updated_at :: string

text \<open>
  The \<open>order\<close> dictionary inside an \<open>order.created\<close> event. The order service reads it
  with \<open>.get\<close>, so every key may be absent; the empty dictionary has none.
\<close>

record order_data =
  order_id :: "string option"
  user_id :: "string option"
  items :: "cart_item list option"
  subtotal :: "money option"
  tax :: "money option"
  total :: "money option"
  status :: "string option"
  created_at :: "string option"

definition empty_order_data :: order_data where
  "empty_order_data =
     \<lparr>order_data.order_id = None, order_data.user_id = None, order_data.items = None,
      order_data.subtotal = None, order_data.tax = None, order_data.total = None,
      order_data.status = None, order_data.created_at = None\<rparr>"

text \<open>
  A stored order. Every write to \<open>orders_db\<close> sets \<open>order_id\<close>, \<open>status\<close>,
  \<open>payment_status\<close>, \<open>shipping\<close>, \<open>total\<close> and \<open>updated_at\<close>; the other keys are the ones
  copied from the event by \<open>**order_data\<close>, or set later by a payment event.
\<close>

record order =
  order_id :: string
  user_id :: "string option"
  items :: "cart_item list option"
  subtotal :: "money option"
  tax :: "money option"
  shipping :: money
  total :: money
  status :: string
  payment_status :: string
  payment_id :: "string option"
  payment_error :: "string option"
  created_at :: "string option"
  updated_at :: string

record payment =
  payment_id :: string
  order_id :: string
  user_id :: string
  amount :: money
  currency :: string
  status :: string
  payment_method :: string
  card_last_four :: "string option"
  transaction_id :: "string option"
  error_code :: "string option"
  error_message :: "string option"
  created_at :: string
  processed_at :: string
  refund_id :: "string option"
  refunded_at :: "string option"

text \<open>A product; \<open>ident\<close> is its key \<open>id\<close>.\<close>

record product =
  ident :: string
  name :: string
  description :: string
  price :: money
  category :: string
  stock :: int
  created_at :: string
  updated_at :: string

text \<open>
  The \<open>data\<close> dictionaries handed to \<open>publish_event\<close>, one constructor for each event
  type; the constant \<open>action\<close> string of each dictionary is the constructor's name.
\<close>

datatype event_data =
    OrderCreated order_data
  | CheckoutCompleted string string money
  | PaymentRequested string "string option" money
  | OrderPlaced string "cart_item list"
  | OrderConfirmed string string
  | OrderPaid string "string option" string
  | OrderStatusChanged string string string
  | PaymentRefunded string string string money
  | StockUpdated string int int int

record published =
  topic :: string
  event_type :: string
  data :: event_data
  accepted :: bool

text \<open>
  An incoming CloudEvents envelope. \<open>id\<close>, \<open>source\<close> and \<open>type\<close> are read with \<open>.get\<close>;
  the handlers only log the first two.
\<close>

record 'a envelope =
  env_id :: "string option"
  env_source :: "string option"
  env_type :: "string option"
  env_data :: 'a

definition event_type_of :: "'a envelope \<Rightarrow> string" where
  \<comment> \<open>\<open>event.get('type', 'unknown')\<close>\<close>
  "event_type_of ev = (case env_type ev of None \<Rightarrow> ''unknown'' | Some t \<Rightarrow> t)"

text \<open>The keys the order service reads from a payment event's \<open>data\<close>.\<close>

record payment_event_data =
  pe_order_id :: "string option"
  pe_payment_id :: "string option"
  pe_error :: "string option"

text \<open>The \<open>product\<close> dictionary of a \<open>product.updated\<close> event, as the cart service reads it.\<close>

record product_ref =
  pr_id :: "string option"
  pr_price :: "money option"

text \<open>A line of an \<open>order.placed\<close> event, as the product service reads it.\<close>

record placed_item =
  pl_product_id :: "string option"
  pl_quantity :: "int option"

record cart_service =
  carts_db :: "string \<rightharpoonup> cart"
  cart_outbox :: "published list"

record order_service =
  orders_db :: "string \<rightharpoonup> order"
  order_outbox :: "published list"

record payment_service =
  payments_db :: "string \<rightharpoonup> payment"
  payment_outbox :: "published list"

record product_service =
  products_db :: "string \<rightharpoonup> product"
  product_outbox :: "published list"

subsection \<open>Publishing\<close>

definition CART_TOPIC :: string where "CART_TOPIC = ''cart-events''"
definition ORDER_TOPIC :: string where "ORDER_TOPIC = ''order-events''"
definition PAYMENT_TOPIC :: string where "PAYMENT_TOPIC = ''payment-events''"
definition PRODUCT_TOPIC :: string where "PRODUCT_TOPIC = ''product-events''"

text \<open>
  \<open>publish_event\<close> posts the envelope to the sidecar and returns whether it was taken.
  No caller looks at the returned flag, so the model records the attempt, with the flag,
  at the end of the service's outbox.
\<close>

definition publish_event ::
  "bool \<Rightarrow> string \<Rightarrow> string \<Rightarrow> event_data \<Rightarrow> published list \<Rightarrow> published list" where
  "publish_event ok tp ty d out =
     out @ [\<lparr>topic = tp, event_type = ty, data = d, accepted = ok\<rparr>]"

subsection \<open>Cart service\<close>

text \<open>
  \<open>sum(item['unit_price'] * item['quantity'] for item in ...)\<close>: the quantity is an
  integer, which the product converts to a float.
\<close>

definition calculate_cart_total :: "cart \<Rightarrow> money" where
  "calculate_cart_total c =
     py_sum (map (\<lambda>i. fmul (unit_price i) (binary64 (of_int (quantity i)))) (cart.items c))"

definition checkout_order :: "string \<Rightarrow> string \<Rightarrow> string \<Rightarrow> cart \<Rightarrow> order_data" where
  \<comment> \<open>the \<open>order\<close> dictionary built by \<open>checkout\<close>\<close>
  "checkout_order oid timestamp uid c =
     \<lparr>order_data.order_id = Some oid,
      order_data.user_id = Some uid,
      order_data.items = Some (cart.items c),
      order_data.subtotal = Some (calculate_cart_total c),
      order_data.tax = Some (py_round2 (fmul (calculate_cart_total c) (cents 8))),
      order_data.total = Some (py_round2 (fmul (calculate_cart_total c) (cents 108))),
      order_data.status = Some ''pending'',
      order_data.created_at = Some timestamp\<rparr>"

definition checkout ::
  "bool \<Rightarrow> bool \<Rightarrow> string \<Rightarrow> string \<Rightarrow> string \<Rightarrow> cart_service
     \<Rightarrow> (error + nat \<times> string \<times> money) \<times> cart_service" where
  "checkout ok1 ok2 uuid8 timestamp uid s =
     (case carts_db s uid of
        None \<Rightarrow> (Inl (Error 404 ''Cart not found''), s)
      | Some c \<Rightarrow>
          if cart.items c = [] then (Inl (Error 400 ''Cart is empty''), s)
          else
            let oid = ''order-'' @ uuid8;
                od = checkout_order oid timestamp uid c;
                tot = py_round2 (fmul (calculate_cart_total c) (cents 108));
                out1 = publish_event ok1 ORDER_TOPIC ''order.created'' (OrderCreated od)
                         (cart_outbox s);
                c' = c\<lparr>cart.items := [], cart.updated_at := timestamp\<rparr>;
                out2 = publish_event ok2 CART_TOPIC ''cart.checkout_completed''
                         (CheckoutCompleted uid oid tot) out1
            in (Inr (201, oid, tot),
                s\<lparr>carts_db := (carts_db s)(uid \<mapsto> c'), cart_outbox := out2\<rparr>))"

definition reprice :: "string \<Rightarrow> money \<Rightarrow> cart_item \<Rightarrow> cart_item" where
  \<comment> \<open>the body of the inner loop of \<open>handle_product_event\<close>\<close>
  "reprice pid p i = (if product_id i = pid then i\<lparr>unit_price := p\<rparr> else i)"

definition handle_product_event ::
  "product_ref envelope \<Rightarrow> cart_service \<Rightarrow> (error + nat \<times> string) \<times> cart_service" where
  "handle_product_event ev s =
     (if event_type_of ev = ''product.updated''
         \<and> truthy_str (pr_id (env_data ev)) \<and> truthy_num (pr_price (env_data ev))
      then
        (Inr (200, ''processed''),
         s\<lparr>carts_db :=
             (\<lambda>u. map_option
                    (\<lambda>c. c\<lparr>cart.items :=
                             map (reprice (the (pr_id (env_data ev)))
                                          (the (pr_price (env_data ev))))
                                 (cart.items c)\<rparr>)
                    (carts_db s u))\<rparr>)
      else (Inr (200, ''processed''), s))"

subsection \<open>Order service\<close>

definition ORDER_STATUS_FLOW :: "string list" where
  "ORDER_STATUS_FLOW =
     [''pending'', ''confirmed'', ''payment_processing'', ''paid'', ''processing'',
      ''shipped'', ''delivered'', ''completed'', ''cancelled'', ''refunded'']"

definition update_order_status ::
  "bool \<Rightarrow> string \<Rightarrow> string \<Rightarrow> string option \<Rightarrow> order_service
     \<Rightarrow> (error + nat \<times> order) \<times> order_service" where
  "update_order_status ok timestamp oid new_status s =
     (case orders_db s oid of
        None \<Rightarrow> (Inl (Error 404 ''Order not found''), s)
      | Some ord \<Rightarrow>
          (case new_status of
             None \<Rightarrow> (Inl (Error 400 ''Invalid status''), s)
           | Some st \<Rightarrow>
               if st \<notin> set ORDER_STATUS_FLOW then (Inl (Error 400 ''Invalid status''), s)
               else
                 let old_status = order.status ord;
                     ord' = ord\<lparr>order.status := st, order.updated_at := timestamp\<rparr>
                 in (Inr (200, ord'),
                     s\<lparr>orders_db := (orders_db s)(oid \<mapsto> ord'),
                       order_outbox :=
                         publish_event ok ''order-events'' ''order.status_changed''
                           (OrderStatusChanged oid old_status st) (order_outbox s)\<rparr>)))"

text \<open>
  The order that \<open>handle_order_event\<close> stores. The spread \<open>**order_data\<close> copies every
  key of the payload; the payloads considered have the keys of \<open>order_data\<close> only, as
  the one built by \<open>checkout\<close> has, so the stored order has no \<open>payment_id\<close> and no
  \<open>payment_error\<close> yet.
\<close>

definition confirm_order :: "string \<Rightarrow> string \<Rightarrow> order_data \<Rightarrow> order" where
  \<comment> \<open>the dictionary \<open>{**order_data, "order_id": ..., "status": "confirmed", ...}\<close>\<close>
  "confirm_order oid timestamp od =
     \<lparr>order.order_id = oid,
      order.user_id = order_data.user_id od,
      order.items = order_data.items od,
      order.subtotal = order_data.subtotal od,
      order.tax = order_data.tax od,
      order.shipping = SHIPPING,
      order.total =
        py_round2 (fadd (case order_data.total od of None \<Rightarrow> 0 | Some t \<Rightarrow> t) SHIPPING),
      order.status = ''confirmed'',
      order.payment_status = ''pending'',
      order.payment_id = None,
      order.payment_error = None,
      order.created_at = order_data.created_at od,
      order.updated_at = timestamp\<rparr>"

definition confirm_events ::
  "bool \<Rightarrow> bool \<Rightarrow> bool \<Rightarrow> order \<Rightarrow> published list" where
  \<comment> \<open>the three publish calls that follow the store of a confirmed order\<close>
  "confirm_events ok1 ok2 ok3 ord =
     publish_event ok3 ''order-events'' ''order.confirmed''
       (OrderConfirmed (order.order_id ord) ''confirmed'')
       (publish_event ok2 PRODUCT_TOPIC ''order.placed''
          (OrderPlaced (order.order_id ord)
             (case order.items ord of None \<Rightarrow> [] | Some xs \<Rightarrow> xs))
          (publish_event ok1 PAYMENT_TOPIC ''payment.requested''
             (PaymentRequested (order.order_id ord) (order.user_id ord) (order.total ord))
             []))"

definition handle_order_event ::
  "bool \<Rightarrow> bool \<Rightarrow> bool \<Rightarrow> string \<Rightarrow> string \<Rightarrow> order_data option envelope
     \<Rightarrow> order_service \<Rightarrow> (error + nat \<times> string) \<times> order_service" where
  "handle_order_event ok1 ok2 ok3 uuid8 timestamp ev s =
     (if event_type_of ev = ''order.created'' then
        let od = (case env_data ev of None \<Rightarrow> empty_order_data | Some d \<Rightarrow> d)
        in if od = empty_order_data
           then (Inl (Error 400 ''Order data missing''), s)
           else
             let oid = (case order_data.order_id od of
                          None \<Rightarrow> ''order-'' @ uuid8 | Some i \<Rightarrow> i);
                 ord = confirm_order oid timestamp od
             in (Inr (200, ''processed''),
                 s\<lparr>orders_db := (orders_db s)(oid \<mapsto> ord),
                   order_outbox := order_outbox s @ confirm_events ok1 ok2 ok3 ord\<rparr>)
      else (Inr (200, ''processed''), s))"

text \<open>
  \<open>POST /orders\<close>, the direct path beside the event. Its request lines are typed as
  cart lines, which carry \<open>unit_price\<close> and \<open>quantity\<close>, so the defaults that the source
  gives to \<open>.get\<close> for these two keys are not reached.
\<close>

definition create_order ::
  "bool \<Rightarrow> string \<Rightarrow> string \<Rightarrow> string option \<Rightarrow> cart_item list option \<Rightarrow> order_service
     \<Rightarrow> (error + nat \<times> order) \<times> order_service" where
  "create_order ok uuid8 timestamp uid its s =
     (case (uid, its) of
        (Some u, Some xs) \<Rightarrow>
          let oid = ''order-'' @ uuid8;
              sub = py_sum (map (\<lambda>i. fmul (unit_price i) (binary64 (of_int (quantity i)))) xs);
              tx = py_round2 (fmul sub (cents 8));
              tot = py_round2 (fadd (fadd sub tx) SHIPPING);
              ord = \<lparr>order.order_id = oid,
                     order.user_id = Some u,
                     order.items = Some xs,
                     order.subtotal = Some sub,
                     order.tax = Some tx,
                     order.shipping = SHIPPING,
                     order.total = tot,
                     order.status = ''pending'',
                     order.payment_status = ''pending'',
                     order.payment_id = None,
                     order.payment_error = None,
                     order.created_at = Some timestamp,
                     order.updated_at = timestamp\<rparr>
          in (Inr (201, ord),
              s\<lparr>orders_db := (orders_db s)(oid \<mapsto> ord),
                order_outbox :=
                  publish_event ok PAYMENT_TOPIC ''payment.requested''
                    (PaymentRequested oid (Some u) tot) (order_outbox s)\<rparr>)
      | _ \<Rightarrow> (Inl (Error 400 ''Missing fields''), s))"

definition handle_payment_event ::
  "bool \<Rightarrow> string \<Rightarrow> payment_event_data envelope \<Rightarrow> order_service
     \<Rightarrow> (error + nat \<times> string) \<times> order_service" where
  "handle_payment_event ok timestamp ev s =
     (if \<not> truthy_str (pe_order_id (env_data ev))
      then (Inl (Error 404 ''Order not found''), s)
      else
        let oid = the (pe_order_id (env_data ev))
        in case orders_db s oid of
             None \<Rightarrow> (Inl (Error 404 ''Order not found''), s)
           | Some ord \<Rightarrow>
               if event_type_of ev = ''payment.completed'' then
                 (Inr (200, ''processed''),
                  s\<lparr>orders_db := (orders_db s)(oid \<mapsto>
                        ord\<lparr>order.payment_status := ''paid'',
                            order.status := ''paid'',
                            order.payment_id := pe_payment_id (env_data ev),
                            order.updated_at := timestamp\<rparr>),
                    order_outbox :=
                      publish_event ok ''order-events'' ''order.paid''
                        (OrderPaid oid (pe_payment_id (env_data ev)) ''paid'')
                        (order_outbox s)\<rparr>)
               else if event_type_of ev = ''payment.failed'' then
                 (Inr (200, ''processed''),
                  s\<lparr>orders_db := (orders_db s)(oid \<mapsto>
                        ord\<lparr>order.payment_status := ''failed'',
                            order.status := ''payment_failed'',
                            order.payment_error :=
                              Some (case pe_error (env_data ev) of
                                      None \<Rightarrow> ''Unknown error'' | Some e \<Rightarrow> e),
                            order.updated_at := timestamp\<rparr>)\<rparr>)
               else (Inr (200, ''processed''), s))"

subsection \<open>Payment service\<close>

definition refund_payment ::
  "bool \<Rightarrow> string \<Rightarrow> string \<Rightarrow> string \<Rightarrow> payment_service
     \<Rightarrow> (error + nat \<times> payment) \<times> payment_service" where
  "refund_payment ok uuid8 timestamp pid s =
     (case payments_db s pid of
        None \<Rightarrow> (Inl (Error 404 ''Payment not found''), s)
      | Some p \<Rightarrow>
          if payment.status p \<noteq> ''completed''
          then (Inl (Error 400 ''Can only refund completed payments''), s)
          else
            let refund = ''ref-'' @ uuid8;
                p' = p\<lparr>payment.status := ''refunded'',
                       refund_id := Some refund,
                       refunded_at := Some timestamp\<rparr>
            in (Inr (200, p'),
                s\<lparr>payments_db := (payments_db s)(pid \<mapsto> p'),
                  payment_outbox :=
                    publish_event ok PAYMENT_TOPIC ''payment.refunded''
                      (PaymentRefunded pid refund (payment.order_id p) (amount p))
                      (payment_outbox s)\<rparr>))"

subsection \<open>Product service\<close>

definition update_stock ::
  "bool \<Rightarrow> string \<Rightarrow> string \<Rightarrow> int \<Rightarrow> product_service
     \<Rightarrow> (error + nat \<times> string \<times> int \<times> int) \<times> product_service" where
  "update_stock ok timestamp pid qty s =
     (case products_db s pid of
        None \<Rightarrow> (Inl (Error 404 ''Product not found''), s)
      | Some p \<Rightarrow>
          let old_stock = stock p; new_stock = old_stock + qty
          in if new_stock < 0 then (Inl (Error 400 ''Insufficient stock''), s)
             else
               (Inr (200, pid, old_stock, new_stock),
                s\<lparr>products_db := (products_db s)(pid \<mapsto>
                      p\<lparr>stock := new_stock, product.updated_at := timestamp\<rparr>),
                  product_outbox :=
                    publish_event ok PRODUCT_TOPIC ''product.stock_updated''
                      (StockUpdated pid old_stock new_stock qty) (product_outbox s)\<rparr>))"

fun reduce_stock :: "placed_item list \<Rightarrow> (string \<rightharpoonup> product) \<Rightarrow> (string \<rightharpoonup> product)" where
  \<comment> \<open>the loop \<open>for item in items\<close> of the product service's \<open>handle_order_event\<close>\<close>
  "reduce_stock [] db = db"
| "reduce_stock (i # rest) db =
     reduce_stock rest
       (case pl_product_id i of
          None \<Rightarrow> db
        | Some pid \<Rightarrow>
            (case db pid of
               None \<Rightarrow> db
             | Some p \<Rightarrow>
                 db(pid \<mapsto> p\<lparr>stock := stock p
                                   - (case pl_quantity i of None \<Rightarrow> 0 | Some q \<Rightarrow> q)\<rparr>)))"

text \<open>
  The product service's route \<open>/events/order\<close>. Its function is called
  \<open>handle_order_event\<close> in the source, as the order service's is.
\<close>

definition handle_order_event_product ::
  "placed_item list envelope \<Rightarrow> product_service
     \<Rightarrow> (error + nat \<times> string) \<times> product_service" where
  "handle_order_event_product ev s =
     (if event_type_of ev = ''order.placed''
      then (Inr (200, ''processed''), s\<lparr>products_db := reduce_stock (env_data ev) (products_db s)\<rparr>)
      else (Inr (200, ''processed''), s))"

subsection \<open>From a published event to a delivered one\<close>

text \<open>
  \<open>publish_event\<close> of the cart service wraps its \<open>data\<close> in the envelope
  \<open>{"id": ..., "source": "cart-service", "type": event_type, "data": data}\<close>, and the
  broker posts that envelope to the subscriber's route. The order service then reads
  \<open>event['data']['order']\<close>, a key that only the data of \<open>order.created\<close> has.
\<close>

definition order_envelope :: "string \<Rightarrow> published \<Rightarrow> order_data option envelope" where
  "order_envelope eid p =
     \<lparr>env_id = Some eid,
      env_source = Some ''cart-service'',
      env_type = Some (event_type p),
      env_data = (case data p of OrderCreated od \<Rightarrow> Some od | _ \<Rightarrow> None)\<rparr>"

subsection \<open>The stores the services start with\<close>

definition initial_carts_db :: "string \<rightharpoonup> cart" where
  "initial_carts_db =
     [''user-001'' \<mapsto>
        \<lparr>cart.user_id = ''user-001'',
         cart.items =
           [\<lparr>item_id = ''cart-item-001'',
             product_id = ''prod-001'',
             product_name = ''Wireless Bluetooth Headphones'',
             quantity = 2,
             unit_price = cents 14999,
             added_at = ''2026-01-11T09:00:00Z''\<rparr>],
         cart.created_at = ''2026-01-11T08:00:00Z'',
         cart.updated_at = ''2026-01-11T09:00:00Z''\<rparr>]"

definition initial_payments_db :: "string \<rightharpoonup> payment" where
  "initial_payments_db =
     [''pay-sample001'' \<mapsto>
        \<lparr>payment.payment_id = ''pay-sample001'',
         payment.order_id = ''order-sample001'',
         payment.user_id = ''user-001'',
         amount = cents 16798,
         currency = ''USD'',
         payment.status = ''completed'',
         payment_method = ''credit_card'',
         card_last_four = Some ''4242'',
         transaction_id = Some ''txn-abc123def456'',
         error_code = None,
         error_message = None,
         payment.created_at = ''2026-01-10T14:35:00Z'',
         processed_at = ''2026-01-10T14:35:05Z'',
         refund_id = None,
         refunded_at = None\<rparr>]"

definition initial_products_db :: "string \<rightharpoonup> product" where
  "initial_products_db =
     [''prod-001'' \<mapsto>
        \<lparr>ident = ''prod-001'',
         name = ''Wireless Bluetooth Headphones'',
         description = ''Premium noise-cancelling wireless headphones'',
         price = cents 14999,
         category = ''Electronics'',
         stock = 100,
         product.created_at = ''2026-01-10T10:00:00Z'',
         product.updated_at = ''2026-01-10T10:00:00Z''\<rparr>,
      ''prod-002'' \<mapsto>
        \<lparr>ident = ''prod-002'',
         name = ''Smart Watch Pro'',
         description = ''Advanced fitness tracking smartwatch'',
         price = cents 29999,
         category = ''Electronics'',
         stock = 50,
         product.created_at = ''2026-01-10T10:00:00Z'',
         product.updated_at = ''2026-01-10T10:00:00Z''\<rparr>,
      ''prod-003'' \<mapsto>
        \<lparr>ident = ''prod-003'',
         name = ''Organic Cotton T-Shirt'',
         description = ''Comfortable eco-friendly t-shirt'',
         price = cents 2999,
         category = ''Clothing'',
         stock = 200,
         product.created_at = ''2026-01-10T10:00:00Z'',
         product.updated_at = ''2026-01-10T10:00:00Z''\<rparr>]"

text \<open>
  The order store's only initial entry, \<open>order-sample001\<close>: a completed, paid order.
  Its line item has no \<open>added_at\<close> key in the source and its \<open>shipping_address\<close> is
  not modelled; no handler reads either.
\<close>

definition initial_orders_db :: "string \<rightharpoonup> order" where
  "initial_orders_db =
     [''order-sample001'' \<mapsto>
        \<lparr>order.order_id = ''order-sample001'',
         order.user_id = Some ''user-001'',
         order.items =
           Some [\<lparr>item_id = ''cart-item-001'',
                  product_id = ''prod-001'',
                  product_name = ''Wireless Bluetooth Headphones'',
                  quantity = 1,
                  unit_price = cents 14999,
                  added_at = []\<rparr>],
         order.subtotal = Some (cents 14999),
         order.tax = Some 12,
         order.shipping = cents 599,
         order.total = cents 16798,
         order.status = ''completed'',
         order.payment_status = ''paid'',
         order.payment_id = None,
         order.payment_error = None,
         order.created_at = Some ''2026-01-10T14:30:00Z'',
         order.updated_at = ''2026-01-10T15:00:00Z''\<rparr>]"

text \<open>A cart holding one line of two units at 150, and one holding one unit at 0.125.\<close>

definition cart_150x2 :: cart where
  "cart_150x2 =
     \<lparr>cart.user_id = ''user-007'',
      cart.items =
        [\<lparr>item_id = ''cart-item-0a1b2c3d'', product_id = ''prod-002'',
          product_name = ''Smart Watch Pro'', quantity = 2, unit_price = 150,
          added_at = ''2026-01-12T10:00:00Z''\<rparr>],
      cart.created_at = ''2026-01-12T10:00:00Z'',
      cart.updated_at = ''2026-01-12T10:00:00Z''\<rparr>"

definition cart_eighth :: cart where
  "cart_eighth =
     \<lparr>cart.user_id = ''user-007'',
      cart.items =
        [\<lparr>item_id = ''cart-item-0a1b2c3d'', product_id = ''prod-009'',
          product_name = ''Washer'', quantity = 1, unit_price = 1 / 8,
          added_at = ''2026-01-12T10:00:00Z''\<rparr>],
      cart.created_at = ''2026-01-12T10:00:00Z'',
      cart.updated_at = ''2026-01-12T10:00:00Z''\<rparr>"

section \<open>Properties\<close>


subsection \<open>Rounding: to an integer, to a double, to cents\<close>

lemma round_half_even_err: "\<bar>of_int (round_half_even x) - x\<bar> \<le> 1 / 2"
proof -
  define d where "d = x - of_int \<lfloor>x\<rfloor>"
  have d: "0 \<le> d" "d < 1" unfolding d_def by linarith+
  have x: "x = of_int \<lfloor>x\<rfloor> + d" by (simp add: d_def)
  consider "d < 1 / 2" | "1 / 2 < d" | "d = 1 / 2" by linarith
  then show ?thesis
  proof cases
    case 1
    then have "round_half_even x = \<lfloor>x\<rfloor>"
      by (simp add: round_half_even_def Let_def d_def)
    then show ?thesis using 1 d x by simp
  next
    case 2
    then have "round_half_even x = \<lfloor>x\<rfloor> + 1"
      by (simp add: round_half_even_def Let_def d_def)
    then show ?thesis using 2 d x by simp
  next
    case 3
    then have "round_half_even x = \<lfloor>x\<rfloor> \<or> round_half_even x = \<lfloor>x\<rfloor> + 1"
      by (simp add: round_half_even_def Let_def d_def)
    then show ?thesis using 3 x by auto
  qed
qed

lemma round_half_even_near:
  assumes "\<bar>x - of_int n\<bar> < 1 / 2"
  shows "round_half_even x = n"
proof -
  have "\<bar>of_int (round_half_even x) - x\<bar> \<le> 1 / 2" by (rule round_half_even_err)
  with assms have "\<bar>(of_int (round_half_even x) :: rat) - of_int n\<bar> < 1" by linarith
  then have "\<bar>(of_int (round_half_even x - n) :: rat)\<bar> < 1" by simp
  then have "\<bar>round_half_even x - n\<bar> < 1"
    by (metis of_int_abs of_int_less_1_iff)
  then show ?thesis by linarith
qed

text \<open>A multiple of 1/25 is within 12/25 of the integer it is rounded to.\<close>

lemma nearest_25:
  "\<bar>of_int j / 25 - of_int (round_half_even (of_int j / 25))\<bar> \<le> (12 / 25 :: rat)"
proof -
  define r where "r = round_half_even (of_int j / 25)"
  have "\<bar>of_int r - (of_int j / 25 :: rat)\<bar> \<le> 1 / 2"
    unfolding r_def by (rule round_half_even_err)
  then have "\<bar>(of_int (2 * (25 * r - j)) :: rat)\<bar> \<le> of_int 25"
    by (simp add: abs_if field_simps split: if_splits)
  then have "\<bar>2 * (25 * r - j)\<bar> \<le> 25"
    by (metis of_int_abs of_int_le_iff)
  then have "\<bar>25 * r - j\<bar> \<le> 12" by presburger
  then have "\<bar>(of_int (25 * r - j) :: rat)\<bar> \<le> of_int 12"
    by (metis of_int_abs of_int_le_iff)
  then show ?thesis
    unfolding r_def [symmetric] by (simp add: abs_if field_simps split: if_splits)
qed

lemma ilog2_bounds:
  assumes "x \<noteq> 0"
  shows "power_int 2 (ilog2 x) \<le> \<bar>x\<bar>" and "\<bar>x\<bar> < power_int 2 (ilog2 x + 1)"
proof -
  obtain p q where pq: "quotient_of x = (p, q)" by (cases "quotient_of x")
  then have q: "0 < q" and x: "x = of_int p / of_int q"
    by (auto dest: quotient_of_denom_pos quotient_of_div)
  from assms x have p: "0 < \<bar>p\<bar>" by auto
  define a where "a = bitlen \<bar>p\<bar>"
  define b where "b = bitlen q"
  have a1: "1 \<le> a" and b1: "1 \<le> b"
    using p q by (auto simp: a_def b_def bitlen_alt_def)
  have pa: "(2::rat) ^ nat (a - 1) \<le> of_int \<bar>p\<bar>" "(of_int \<bar>p\<bar> :: rat) < 2 ^ nat a"
    using bitlen_bounds [OF p] unfolding a_def
    by (metis of_int_le_iff of_int_numeral of_int_power,
        metis of_int_less_iff of_int_numeral of_int_power)
  have qb: "(2::rat) ^ nat (b - 1) \<le> of_int q" "(of_int q :: rat) < 2 ^ nat b"
    using bitlen_bounds [OF q] unfolding b_def
    by (metis of_int_le_iff of_int_numeral of_int_power,
        metis of_int_less_iff of_int_numeral of_int_power)
  have ax: "\<bar>x\<bar> = of_int \<bar>p\<bar> / of_int q" using q by (simp add: x)
  have pia: "power_int (2::rat) a = 2 ^ nat a" "power_int (2::rat) (a - 1) = 2 ^ nat (a - 1)"
    and pib: "power_int (2::rat) b = 2 ^ nat b" "power_int (2::rat) (b - 1) = 2 ^ nat (b - 1)"
    using a1 b1 by (simp_all add: power_int_def)
  have lo: "power_int 2 (a - b - 1) < \<bar>x\<bar>"
  proof -
    have "power_int (2::rat) (a - b - 1) = power_int 2 (a - 1) / power_int 2 b"
      by (simp add: power_int_diff)
    also have "\<dots> < of_int \<bar>p\<bar> / of_int q"
      unfolding pia pib using pa qb q p
      by (intro frac_less2) auto
    finally show ?thesis by (simp add: ax)
  qed
  have hi: "\<bar>x\<bar> < power_int 2 (a - b + 1)"
  proof -
    have "of_int \<bar>p\<bar> / of_int q < (2::rat) ^ nat a / 2 ^ nat (b - 1)"
      using pa qb q p by (intro frac_less) auto
    also have "\<dots> = power_int 2 a / power_int 2 (b - 1)" by (simp only: pia pib)
    also have "\<dots> = power_int 2 (a - b + 1)"
      using power_int_diff [of "2::rat" a "b - 1"] by (simp add: algebra_simps)
    finally show ?thesis by (simp add: ax)
  qed
  have k: "ilog2 x = (if power_int 2 (a - b) \<le> \<bar>x\<bar> then a - b else a - b - 1)"
    by (simp add: ilog2_def pq a_def b_def Let_def)
  show "power_int 2 (ilog2 x) \<le> \<bar>x\<bar>"
    using lo by (auto simp: k less_imp_le)
  show "\<bar>x\<bar> < power_int 2 (ilog2 x + 1)"
    using hi by (auto simp: k)
qed

text \<open>
  The error of one rounding to a double: half a unit in the last place, which is at
  most \<open>|x| / 2 ^ 53\<close> for a normal number and \<open>2 powi (- 1075)\<close> for a subnormal one.
\<close>

lemma binary64_err:
  "\<bar>binary64 x - x\<bar> \<le> \<bar>x\<bar> / 2 ^ 53 + power_int 2 (- 1075)"
proof (cases "x = 0")
  case True
  then show ?thesis by (simp add: binary64_def)
next
  case False
  define e where "e = max (ilog2 x - 52) (- 1074)"
  define q :: rat where "q = power_int 2 e"
  have q0: "0 < q" by (simp add: q_def)
  have b: "binary64 x = of_int (round_half_even (x / q)) * q"
    using False by (simp add: binary64_def e_def q_def Let_def)
  have "binary64 x - x = (of_int (round_half_even (x / q)) - x / q) * q"
    using q0 by (simp add: b field_simps)
  then have "\<bar>binary64 x - x\<bar> = \<bar>of_int (round_half_even (x / q)) - x / q\<bar> * q"
    using q0 by (simp add: abs_mult)
  also have "\<dots> \<le> 1 / 2 * q"
    using round_half_even_err [of "x / q"] q0 by (intro mult_right_mono) auto
  finally have err: "\<bar>binary64 x - x\<bar> \<le> q / 2" by simp
  show ?thesis
  proof (cases "- 1074 \<le> ilog2 x - 52")
    case True
    then have e: "e = ilog2 x - 52" by (simp add: e_def)
    have "q * 2 ^ 52 = power_int 2 (ilog2 x)"
      unfolding q_def e by (simp add: power_int_diff)
    also have "\<dots> \<le> \<bar>x\<bar>" by (rule ilog2_bounds [OF False])
    finally have "q / 2 \<le> \<bar>x\<bar> / 2 ^ 53" by (simp add: field_simps)
    moreover have "0 \<le> power_int (2::rat) (- 1075)" by simp
    ultimately show ?thesis using err by linarith
  next
    case False
    then have e: "e = - 1074" by (simp add: e_def)
    have "q / 2 = power_int 2 (- 1075)"
      unfolding q_def e using power_int_diff [of "2::rat" "- 1074" 1] by simp
    moreover have "0 \<le> \<bar>x\<bar> / 2 ^ 53" by simp
    ultimately show ?thesis using err by linarith
  qed
qed

lemma subnormal_step_small: "power_int (2::rat) (- 1075) \<le> 1 / 1000000000"
proof -
  have "power_int (2::rat) (- 1075) = (1 / 2) ^ 1075"
    by (simp add: power_int_def inverse_eq_divide)
  also have "\<dots> \<le> (1 / 2) ^ 30" by (rule power_decreasing) auto
  also have "\<dots> \<le> 1 / 1000000000" by (simp add: power_divide)
  finally show ?thesis .
qed

text \<open>Up to twenty billion, a rounding to a double moves an amount by less than 0.0000025.\<close>

lemma binary64_close:
  assumes "\<bar>x\<bar> \<le> 20000000000"
  shows "\<bar>binary64 x - x\<bar> \<le> 1 / 400000"
proof -
  have "\<bar>binary64 x - x\<bar> \<le> \<bar>x\<bar> / 2 ^ 53 + power_int 2 (- 1075)"
    by (rule binary64_err)
  moreover have "\<bar>x\<bar> / 2 ^ 53 \<le> 20000000000 / 2 ^ 53"
    using assms by (simp add: divide_right_mono)
  ultimately show ?thesis using subnormal_step_small by simp
qed

lemma cents_108: "\<bar>cents 108 - 108 / 100\<bar> \<le> 1 / 1000000000000000"
  and cents_8: "\<bar>cents 8 - 8 / 100\<bar> \<le> 1 / 1000000000000000"
  and cents_599: "\<bar>cents 599 - 599 / 100\<bar> \<le> 1 / 1000000000000000"
  by code_simp+

lemma py_round2_near:
  assumes "\<bar>x * 100 - of_int m\<bar> < 1 / 2"
  shows "py_round2 x = cents m"
  using round_half_even_near [OF assms] by (simp add: py_round2_def)

lemma prod_close:
  fixes x y X Y :: rat
  assumes "\<bar>x - X\<bar> \<le> dx" and "\<bar>y - Y\<bar> \<le> dy" and "\<bar>y\<bar> \<le> By" and "\<bar>X\<bar> \<le> BX"
  shows "\<bar>x * y - X * Y\<bar> \<le> dx * By + BX * dy"
proof -
  have "x * y - X * Y = (x - X) * y + X * (y - Y)" by (simp add: algebra_simps)
  then have "\<bar>x * y - X * Y\<bar> \<le> \<bar>x - X\<bar> * \<bar>y\<bar> + \<bar>X\<bar> * \<bar>y - Y\<bar>"
    by (metis abs_mult abs_triangle_ineq)
  also have "\<dots> \<le> dx * By + BX * dy"
    using assms by (intro add_mono mult_mono) (auto intro: order_trans [OF abs_ge_zero])
  finally show ?thesis .
qed

text \<open>
  The float computations of the two services on a subtotal \<open>s\<close> that is, to within a
  thousandth of a cent, a whole number \<open>n\<close> of cents, \<open>n\<close> at most \<open>10 ^ 12\<close>. With \<open>m\<close>
  the number of cents nearest to \<open>1.08 n\<close>: the cart's total is \<open>m\<close> cents and its tax
  \<open>m - n\<close> cents; the total with shipping is \<open>m + 599\<close> cents, whether 5.99 is added to
  the rounded total, to the product before rounding, or to subtotal plus tax.
\<close>

lemma cents_pipeline:
  fixes s :: rat and n :: int
  assumes n0: "0 \<le> n" and nB: "n \<le> 1000000000000"
    and near: "\<bar>s * 100 - of_int n\<bar> \<le> 1 / 1000"
  defines "m \<equiv> round_half_even (of_int (27 * n) / 25)"
  shows "py_round2 (fmul s (cents 108)) = cents m"
    and "py_round2 (fadd (cents m) (cents 599)) = cents (m + 599)"
    and "py_round2 (fadd (fmul s (cents 108)) (cents 599)) = cents (m + 599)"
    and "py_round2 (fmul s (cents 8)) = cents (m - n)"
    and "py_round2 (fadd (fadd s (cents (m - n))) (cents 599)) = cents (m + 599)"
proof -
  define N :: rat where "N = of_int n"
  define M :: rat where "M = of_int m"
  define K where "K = cents 108"
  define K8 where "K8 = cents 8"
  define S where "S = cents 599"
  have N0: "0 \<le> N" and NB: "N \<le> 1000000000000"
    using n0 nB by (simp_all add: N_def)
  have sN: "\<bar>s - N / 100\<bar> \<le> 1 / 100000"
    using near unfolding N_def by linarith
  have K: "\<bar>K - 108 / 100\<bar> \<le> 1 / 1000000000000000" unfolding K_def by (rule cents_108)
  have K8: "\<bar>K8 - 8 / 100\<bar> \<le> 1 / 1000000000000000" unfolding K8_def by (rule cents_8)
  have S: "\<bar>S - 599 / 100\<bar> \<le> 1 / 1000000000000000" unfolding S_def by (rule cents_599)
  have Kb: "\<bar>K\<bar> \<le> 2" and K8b: "\<bar>K8\<bar> \<le> 1" using K K8 by linarith+
  have Nabs: "\<bar>N / 100\<bar> \<le> 10000000000" using N0 NB by linarith
  \<comment> \<open>the nearest integer of \<open>27 n / 25\<close>\<close>
  have e: "(of_int (27 * n) :: rat) / 25 = N * 27 / 25" by (simp add: N_def)
  have mN: "\<bar>N * 27 / 25 - M\<bar> \<le> 12 / 25"
    unfolding M_def m_def e [symmetric] by (rule nearest_25)
  \<comment> \<open>the cart's product \<open>subtotal * 1.08\<close>\<close>
  define x where "x = s * K"
  define p where "p = binary64 x"
  have "\<bar>s * K - N / 100 * (108 / 100)\<bar>
          \<le> 1 / 100000 * 2 + 10000000000 * (1 / 1000000000000000)"
    by (rule prod_close [OF sN K Kb Nabs])
  then have x: "\<bar>x - N * 27 / 2500\<bar> \<le> 3 / 100000" unfolding x_def by linarith
  have xb: "\<bar>x\<bar> \<le> 20000000000" using x N0 NB by linarith
  have p: "\<bar>p - x\<bar> \<le> 1 / 400000" unfolding p_def by (rule binary64_close [OF xb])
  have pM: "\<bar>p * 100 - M\<bar> < 1 / 2" using p x mN by linarith
  show "py_round2 (fmul s (cents 108)) = cents m"
    using py_round2_near [of p m] pM by (simp add: p_def x_def K_def M_def fmul_def)
  \<comment> \<open>the handler's sum \<open>total + 5.99\<close>\<close>
  define T where "T = binary64 (M / 100)"
  have "\<bar>M / 100\<bar> \<le> 20000000000" using mN N0 NB by linarith
  then have T: "\<bar>T - M / 100\<bar> \<le> 1 / 400000" unfolding T_def by (rule binary64_close)
  define t where "t = binary64 (T + S)"
  have "\<bar>T + S\<bar> \<le> 20000000000" using T S mN N0 NB by linarith
  then have "\<bar>t - (T + S)\<bar> \<le> 1 / 400000" unfolding t_def by (rule binary64_close)
  then have "\<bar>t * 100 - (M + 599)\<bar> < 1 / 2" using T S by linarith
  then have "\<bar>t * 100 - of_int (m + 599)\<bar> < 1 / 2" by (simp add: M_def)
  then show "py_round2 (fadd (cents m) (cents 599)) = cents (m + 599)"
    using py_round2_near [of t "m + 599"]
    by (simp add: t_def T_def S_def M_def fadd_def cents_def [of m])
  \<comment> \<open>the single rounding of \<open>subtotal * 1.08 + 5.99\<close>\<close>
  define r where "r = binary64 (p + S)"
  have "\<bar>p + S\<bar> \<le> 20000000000" using p x S N0 NB by linarith
  then have "\<bar>r - (p + S)\<bar> \<le> 1 / 400000" unfolding r_def by (rule binary64_close)
  then have "\<bar>r * 100 - (M + 599)\<bar> < 1 / 2" using p x S mN by linarith
  then have "\<bar>r * 100 - of_int (m + 599)\<bar> < 1 / 2" by (simp add: M_def)
  then show "py_round2 (fadd (fmul s (cents 108)) (cents 599)) = cents (m + 599)"
    using py_round2_near [of r "m + 599"]
    by (simp add: r_def p_def x_def K_def S_def fadd_def fmul_def)
  \<comment> \<open>the tax\<close>
  define x8 where "x8 = s * K8"
  define p8 where "p8 = binary64 x8"
  have "\<bar>s * K8 - N / 100 * (8 / 100)\<bar>
          \<le> 1 / 100000 * 1 + 10000000000 * (1 / 1000000000000000)"
    by (rule prod_close [OF sN K8 K8b Nabs])
  then have x8: "\<bar>x8 - N * 2 / 2500\<bar> \<le> 2 / 100000" unfolding x8_def by linarith
  have "\<bar>x8\<bar> \<le> 20000000000" using x8 N0 NB by linarith
  then have p8: "\<bar>p8 - x8\<bar> \<le> 1 / 400000" unfolding p8_def by (rule binary64_close)
  have "\<bar>p8 * 100 - (M - N)\<bar> < 1 / 2" using p8 x8 mN by linarith
  then have "\<bar>p8 * 100 - of_int (m - n)\<bar> < 1 / 2" by (simp add: M_def N_def)
  then show "py_round2 (fmul s (cents 8)) = cents (m - n)"
    using py_round2_near [of p8 "m - n"] by (simp add: p8_def x8_def K8_def fmul_def)
  \<comment> \<open>\<open>subtotal + tax + shipping\<close>\<close>
  define D where "D = M - N"
  have D: "(of_int (m - n) :: rat) = D" by (simp add: D_def M_def N_def)
  have DM: "\<bar>N * 2 / 25 - D\<bar> \<le> 12 / 25" using mN unfolding D_def by linarith
  define X where "X = binary64 (D / 100)"
  have "\<bar>D / 100\<bar> \<le> 20000000000" using DM N0 NB by linarith
  then have X: "\<bar>X - D / 100\<bar> \<le> 1 / 400000"
    unfolding X_def by (rule binary64_close)
  define y where "y = binary64 (s + X)"
  have "\<bar>s + X\<bar> \<le> 20000000000" using sN X DM N0 NB by linarith
  then have y: "\<bar>y - (s + X)\<bar> \<le> 1 / 400000" unfolding y_def by (rule binary64_close)
  define z where "z = binary64 (y + S)"
  have "\<bar>y + S\<bar> \<le> 20000000000" using y sN X S DM N0 NB by linarith
  then have "\<bar>z - (y + S)\<bar> \<le> 1 / 400000" unfolding z_def by (rule binary64_close)
  then have "\<bar>z * 100 - (N + D + 599)\<bar> < 1 / 2" using y sN X S by linarith
  then have "\<bar>z * 100 - of_int (m + 599)\<bar> < 1 / 2" by (simp add: D_def M_def)
  then show "py_round2 (fadd (fadd s (cents (m - n))) (cents 599)) = cents (m + 599)"
    using py_round2_near [of z "m + 599"]
    unfolding cents_def [of "m - n"] D by (simp add: z_def y_def X_def S_def fadd_def)
qed

subsection \<open>What a successful checkout and a delivered \<open>order.created\<close> do\<close>

lemma checkout_nonempty:
  assumes "carts_db cs uid = Some c" and "cart.items c \<noteq> []"
  shows "checkout ok1 ok2 uuid8 ts uid cs =
           (Inr (201, ''order-'' @ uuid8, py_round2 (fmul (calculate_cart_total c) (cents 108))),
            cs\<lparr>carts_db := (carts_db cs)(uid \<mapsto> c\<lparr>cart.items := [], cart.updated_at := ts\<rparr>),
              cart_outbox := cart_outbox cs @
                [\<lparr>topic = ''order-events'', event_type = ''order.created'',
                  data = OrderCreated (checkout_order (''order-'' @ uuid8) ts uid c),
                  accepted = ok1\<rparr>,
                 \<lparr>topic = ''cart-events'', event_type = ''cart.checkout_completed'',
                  data = CheckoutCompleted uid (''order-'' @ uuid8)
                           (py_round2 (fmul (calculate_cart_total c) (cents 108))),
                  accepted = ok2\<rparr>]\<rparr>)"
  using assms
  by (simp add: checkout_def publish_event_def ORDER_TOPIC_def CART_TOPIC_def Let_def)

lemma checkout_envelope:
  assumes "carts_db cs uid = Some c" and "cart.items c \<noteq> []"
  shows "order_envelope eid
           (cart_outbox (snd (checkout ok1 ok2 uuid8 ts uid cs)) ! length (cart_outbox cs)) =
           \<lparr>env_id = Some eid, env_source = Some ''cart-service'',
            env_type = Some ''order.created'',
            env_data = Some (checkout_order (''order-'' @ uuid8) ts uid c)\<rparr>"
  by (simp add: checkout_nonempty [OF assms] order_envelope_def nth_append)

lemma handle_order_created:
  assumes "event_type_of ev = ''order.created''" and "env_data ev = Some od"
    and "order_data.order_id od = Some oid"
  shows "handle_order_event ok1 ok2 ok3 uuid8 ts ev s =
           (Inr (200, ''processed''),
            s\<lparr>orders_db := (orders_db s)(oid \<mapsto> confirm_order oid ts od),
              order_outbox :=
                order_outbox s @ confirm_events ok1 ok2 ok3 (confirm_order oid ts od)\<rparr>)"
proof -
  have "od \<noteq> empty_order_data"
    using assms(3) by (auto simp: empty_order_data_def)
  then show ?thesis
    using assms by (simp add: handle_order_event_def Let_def)
qed

lemma handle_checkout_order:
  "handle_order_event ok1 ok2 ok3 u ts
     \<lparr>env_id = Some eid, env_source = Some ''cart-service'',
      env_type = Some ''order.created'', env_data = Some (checkout_order oid t uid c)\<rparr> s =
     (Inr (200, ''processed''),
      s\<lparr>orders_db := (orders_db s)(oid \<mapsto> confirm_order oid ts (checkout_order oid t uid c)),
        order_outbox :=
          order_outbox s
          @ confirm_events ok1 ok2 ok3 (confirm_order oid ts (checkout_order oid t uid c))\<rparr>)"
  by (rule handle_order_created) (simp_all add: event_type_of_def checkout_order_def)

lemma confirm_events_list:
  "confirm_events ok1 ok2 ok3 ord =
     [\<lparr>topic = ''payment-events'', event_type = ''payment.requested'',
       data = PaymentRequested (order.order_id ord) (order.user_id ord) (order.total ord),
       accepted = ok1\<rparr>,
      \<lparr>topic = ''product-events'', event_type = ''order.placed'',
       data = OrderPlaced (order.order_id ord)
                (case order.items ord of None \<Rightarrow> [] | Some xs \<Rightarrow> xs),
       accepted = ok2\<rparr>,
      \<lparr>topic = ''order-events'', event_type = ''order.confirmed'',
       data = OrderConfirmed (order.order_id ord) ''confirmed'', accepted = ok3\<rparr>]"
  by (simp add: confirm_events_def publish_event_def PAYMENT_TOPIC_def PRODUCT_TOPIC_def)

subsection \<open>Order service: payment results\<close>

text \<open>
  C1 (as amended). For a \<open>payment.completed\<close> event: if its \<open>order_id\<close> is a non-empty
  string under which the order store holds an order, the handler sets that order's
  \<open>payment_status\<close> and \<open>status\<close> to \<open>paid\<close>, records the event's \<open>payment_id\<close>, publishes
  \<open>order.paid\<close> and answers 200. If the \<open>order_id\<close> is missing, empty or unknown, the
  handler answers 404 \<open>Order not found\<close> and leaves the store and the outbox as they
  were: no order is created and nothing is published.
\<close>

theorem payment_completed_paid_or_not_found:
  assumes "event_type_of ev = ''payment.completed''"
  shows "(\<forall>oid ord. pe_order_id (env_data ev) = Some oid \<and> oid \<noteq> []
                     \<and> orders_db s oid = Some ord \<longrightarrow>
            handle_payment_event ok ts ev s =
              (Inr (200, ''processed''),
               s\<lparr>orders_db := (orders_db s)(oid \<mapsto>
                     ord\<lparr>order.payment_status := ''paid'',
                         order.status := ''paid'',
                         order.payment_id := pe_payment_id (env_data ev),
                         order.updated_at := ts\<rparr>),
                 order_outbox := order_outbox s @
                   [\<lparr>topic = ''order-events'', event_type = ''order.paid'',
                     data = OrderPaid oid (pe_payment_id (env_data ev)) ''paid'',
                     accepted = ok\<rparr>]\<rparr>))
       \<and> ((pe_order_id (env_data ev) = None \<or> pe_order_id (env_data ev) = Some []
            \<or> (\<exists>oid. pe_order_id (env_data ev) = Some oid \<and> orders_db s oid = None)) \<longrightarrow>
            handle_payment_event ok ts ev s = (Inl (Error 404 ''Order not found''), s))"
  using assms
  by (auto simp: handle_payment_event_def truthy_str_def publish_event_def Let_def)

text \<open>
  The sample order is paid by a \<open>payment.completed\<close> event even when the broker refuses
  \<open>order.paid\<close>; an event for the unknown \<open>order-deadbeef\<close> changes nothing.
\<close>

theorem payment_completed_paid_or_not_found_witness:
  "(let ev = \<lparr>env_id = Some ''evt-1'', env_source = Some ''payment-service'',
              env_type = Some ''payment.completed'',
              env_data = \<lparr>pe_order_id = Some ''order-sample001'',
                          pe_payment_id = Some ''pay-0f0f0f0f'', pe_error = None\<rparr>\<rparr>;
        s = \<lparr>orders_db = initial_orders_db, order_outbox = []\<rparr>;
        s' = snd (handle_payment_event False ''2026-01-12T10:00:00Z'' ev s)
    in event_type_of ev = ''payment.completed''
       \<and> map_option order.status (orders_db s' ''order-sample001'') = Some ''paid''
       \<and> map_option order.payment_status (orders_db s' ''order-sample001'') = Some ''paid''
       \<and> map_option order.payment_id (orders_db s' ''order-sample001'')
           = Some (Some ''pay-0f0f0f0f'')
       \<and> map event_type (order_outbox s') = [''order.paid''])
   \<and> (let ev = \<lparr>env_id = Some ''evt-2'', env_source = Some ''payment-service'',
              env_type = Some ''payment.completed'',
              env_data = \<lparr>pe_order_id = Some ''order-deadbeef'',
                          pe_payment_id = Some ''pay-0f0f0f0f'', pe_error = None\<rparr>\<rparr>;
        s = \<lparr>orders_db = initial_orders_db, order_outbox = []\<rparr>
    in event_type_of ev = ''payment.completed''
       \<and> handle_payment_event True ''2026-01-12T10:00:00Z'' ev s
           = (Inl (Error 404 ''Order not found''), s))"
  using payment_completed_paid_or_not_found
          [of "\<lparr>env_id = Some ''evt-1'', env_source = Some ''payment-service'',
              env_type = Some ''payment.completed'',
              env_data = \<lparr>pe_order_id = Some ''order-sample001'',
                          pe_payment_id = Some ''pay-0f0f0f0f'', pe_error = None\<rparr>\<rparr>"
              "\<lparr>orders_db = initial_orders_db, order_outbox = []\<rparr>"
              False "''2026-01-12T10:00:00Z''"]
        payment_completed_paid_or_not_found
          [of "\<lparr>env_id = Some ''evt-2'', env_source = Some ''payment-service'',
              env_type = Some ''payment.completed'',
              env_data = \<lparr>pe_order_id = Some ''order-deadbeef'',
                          pe_payment_id = Some ''pay-0f0f0f0f'', pe_error = None\<rparr>\<rparr>"
              "\<lparr>orders_db = initial_orders_db, order_outbox = []\<rparr>"
              True "''2026-01-12T10:00:00Z''"]
  by (simp add: event_type_of_def initial_orders_db_def Let_def)

text \<open>
  C1 as stated asks for an acknowledgement when the order is unknown. The handler
  answers with the error 404 instead, which a broker takes as a failed delivery.
\<close>

theorem payment_completed_unknown_order_counterexample:
  "fst (handle_payment_event True ''2026-01-12T10:00:00Z''
          \<lparr>env_id = Some ''evt-2'', env_source = Some ''payment-service'',
           env_type = Some ''payment.completed'',
           env_data = \<lparr>pe_order_id = Some ''order-deadbeef'',
                       pe_payment_id = Some ''pay-0f0f0f0f'', pe_error = None\<rparr>\<rparr>
          \<lparr>orders_db = initial_orders_db, order_outbox = []\<rparr>)
     = Inl (Error 404 ''Order not found'')
   \<and> fst (handle_payment_event True ''2026-01-12T10:00:00Z''
          \<lparr>env_id = Some ''evt-2'', env_source = Some ''payment-service'',
           env_type = Some ''payment.completed'',
           env_data = \<lparr>pe_order_id = Some ''order-deadbeef'',
                       pe_payment_id = Some ''pay-0f0f0f0f'', pe_error = None\<rparr>\<rparr>
          \<lparr>orders_db = initial_orders_db, order_outbox = []\<rparr>)
     \<noteq> Inr (200, ''processed'')"
  by (simp add: handle_payment_event_def truthy_str_def initial_orders_db_def Let_def)

subsection \<open>Order service: redelivery of \<open>order.created\<close>\<close>

text \<open>
  C2. The \<open>order.created\<close> envelope of a checkout, delivered twice to the order service
  (whatever the broker answers, the clock shows or \<open>uuid4\<close> returns at each delivery),
  leaves one order for that checkout: the second delivery adds no key to the store,
  the first adds at most the checkout's own order id, every other entry of the store is
  as it was before, and the order under that id carries that id.
\<close>

theorem order_created_redelivery_single_order:
  assumes "carts_db cs uid = Some c" and "cart.items c \<noteq> []"
  shows "let ev = order_envelope eid
                    (cart_outbox (snd (checkout ok1 ok2 uuid8 ts uid cs))
                       ! length (cart_outbox cs));
             s1 = snd (handle_order_event a1 a2 a3 u1 t1 ev s);
             s2 = snd (handle_order_event b1 b2 b3 u2 t2 ev s1)
         in dom (orders_db s2) = dom (orders_db s1)
            \<and> dom (orders_db s1) = insert (''order-'' @ uuid8) (dom (orders_db s))
            \<and> (\<forall>k. k \<noteq> ''order-'' @ uuid8 \<longrightarrow> orders_db s2 k = orders_db s k)
            \<and> map_option order.order_id (orders_db s2 (''order-'' @ uuid8))
                = Some (''order-'' @ uuid8)"
  unfolding checkout_envelope [OF assms] Let_def handle_checkout_order
  by (auto simp: confirm_order_def)

theorem order_created_redelivery_single_order_witness:
  "carts_db \<lparr>carts_db = initial_carts_db, cart_outbox = []\<rparr> ''user-001''
     = Some (the (initial_carts_db ''user-001''))
   \<and> cart.items (the (initial_carts_db ''user-001'')) \<noteq> []
   \<and> (let ev = order_envelope ''evt-7''
                 (cart_outbox (snd (checkout True True ''1a2b3c4d'' ''2026-01-12T10:00:00Z''
                                      ''user-001''
                                      \<lparr>carts_db = initial_carts_db, cart_outbox = []\<rparr>))
                    ! length (cart_outbox \<lparr>carts_db = initial_carts_db, cart_outbox = []\<rparr>));
           s = \<lparr>orders_db = initial_orders_db, order_outbox = []\<rparr>;
           s1 = snd (handle_order_event True True True ''aaaaaaaa'' ''2026-01-12T10:00:01Z'' ev s);
           s2 = snd (handle_order_event True True True ''bbbbbbbb'' ''2026-01-12T10:00:09Z'' ev s1)
       in dom (orders_db s2) = {''order-1a2b3c4d'', ''order-sample001''}
          \<and> dom (orders_db s1) = {''order-1a2b3c4d'', ''order-sample001''}
          \<and> orders_db s2 ''order-sample001'' = initial_orders_db ''order-sample001''
          \<and> map_option order.order_id (orders_db s2 ''order-1a2b3c4d'') = Some ''order-1a2b3c4d'')"
  using order_created_redelivery_single_order
          [of "\<lparr>carts_db = initial_carts_db, cart_outbox = []\<rparr>" "''user-001''"
              "the (initial_carts_db ''user-001'')" "''evt-7''" True True "''1a2b3c4d''"
              "''2026-01-12T10:00:00Z''" True True True "''aaaaaaaa''" "''2026-01-12T10:00:01Z''"
              "\<lparr>orders_db = initial_orders_db, order_outbox = []\<rparr>"
              True True True "''bbbbbbbb''" "''2026-01-12T10:00:09Z''"]
  by (simp add: initial_carts_db_def initial_orders_db_def Let_def)

subsection \<open>Order service: \<open>order.created\<close> for an order that is already stored\<close>

text \<open>
  C10. An \<open>order.created\<close> event whose payload carries an \<open>order_id\<close> that is already in
  the order store replaces the stored order, whatever the envelope's id and whatever
  the stored order was: the new entry is built from the payload alone, with status
  \<open>confirmed\<close> and payment status \<open>pending\<close> (and without the payment id of the old
  entry), and \<open>payment.requested\<close>, \<open>order.placed\<close> and \<open>order.confirmed\<close> are published
  again.
\<close>

theorem order_created_replaces_stored_order:
  assumes "event_type_of ev = ''order.created''" and "env_data ev = Some od"
    and "order_data.order_id od = Some oid" and "orders_db s oid = Some old"
  shows "handle_order_event ok1 ok2 ok3 uuid8 ts ev s =
           (Inr (200, ''processed''),
            s\<lparr>orders_db := (orders_db s)(oid \<mapsto> confirm_order oid ts od),
              order_outbox := order_outbox s @
                [\<lparr>topic = ''payment-events'', event_type = ''payment.requested'',
                  data = PaymentRequested oid (order_data.user_id od)
                           (order.total (confirm_order oid ts od)),
                  accepted = ok1\<rparr>,
                 \<lparr>topic = ''product-events'', event_type = ''order.placed'',
                  data = OrderPlaced oid
                           (case order_data.items od of None \<Rightarrow> [] | Some xs \<Rightarrow> xs),
                  accepted = ok2\<rparr>,
                 \<lparr>topic = ''order-events'', event_type = ''order.confirmed'',
                  data = OrderConfirmed oid ''confirmed'', accepted = ok3\<rparr>]\<rparr>)
         \<and> order.status (confirm_order oid ts od) = ''confirmed''
         \<and> order.payment_status (confirm_order oid ts od) = ''pending''
         \<and> order.payment_id (confirm_order oid ts od) = None"
  by (simp add: handle_order_created [OF assms(1-3)] confirm_events_list confirm_order_def)

text \<open>
  The sample order, completed and paid, is back to \<open>confirmed\<close> and \<open>pending\<close> after an
  \<open>order.created\<close> event that names it.
\<close>

theorem order_created_replaces_stored_order_witness:
  "(let od = empty_order_data\<lparr>order_data.order_id := Some ''order-sample001'',
                               order_data.total := Some 10\<rparr>;
        ev = \<lparr>env_id = Some ''evt-9'', env_source = Some ''cart-service'',
              env_type = Some ''order.created'', env_data = Some od\<rparr>;
        s = \<lparr>orders_db = initial_orders_db, order_outbox = []\<rparr>;
        s' = snd (handle_order_event True True True ''cccccccc'' ''2026-01-12T10:00:00Z'' ev s)
    in event_type_of ev = ''order.created'' \<and> env_data ev = Some od
       \<and> order_data.order_id od = Some ''order-sample001''
       \<and> map_option order.status (orders_db s ''order-sample001'') = Some ''completed''
       \<and> map_option order.payment_status (orders_db s ''order-sample001'') = Some ''paid''
       \<and> map_option order.status (orders_db s' ''order-sample001'') = Some ''confirmed''
       \<and> map_option order.payment_status (orders_db s' ''order-sample001'') = Some ''pending''
       \<and> map event_type (order_outbox s')
           = [''payment.requested'', ''order.placed'', ''order.confirmed''])"
  using order_created_replaces_stored_order
          [of "\<lparr>env_id = Some ''evt-9'', env_source = Some ''cart-service'',
               env_type = Some ''order.created'',
               env_data = Some (empty_order_data\<lparr>order_data.order_id := Some ''order-sample001'',
                                                 order_data.total := Some 10\<rparr>)\<rparr>"
              "empty_order_data\<lparr>order_data.order_id := Some ''order-sample001'',
                                order_data.total := Some 10\<rparr>"
              "''order-sample001''"
              "\<lparr>orders_db = initial_orders_db, order_outbox = []\<rparr>"
              "the (initial_orders_db ''order-sample001'')"
              True True True "''cccccccc''" "''2026-01-12T10:00:00Z''"]
  by (simp add: event_type_of_def empty_order_data_def initial_orders_db_def Let_def)

subsection \<open>Order service: manual status update\<close>

text \<open>
  C7. \<open>update_order_status\<close> on an existing order answers 400 \<open>Invalid status\<close> exactly
  when the new status is not one of the ten entries of \<open>ORDER_STATUS_FLOW\<close>, and then
  changes nothing. Otherwise it overwrites the order's status with the new one, whatever
  the old status is, and publishes \<open>order.status_changed\<close> with the old and new status.
\<close>

theorem update_order_status_any_recognised:
  assumes "orders_db s oid = Some ord"
  shows "(fst (update_order_status ok ts oid new_status s) = Inl (Error 400 ''Invalid status''))
            = (new_status \<notin> Some ` set ORDER_STATUS_FLOW)
       \<and> (new_status \<notin> Some ` set ORDER_STATUS_FLOW \<longrightarrow>
            snd (update_order_status ok ts oid new_status s) = s)
       \<and> (\<forall>st. new_status = Some st \<and> st \<in> set ORDER_STATUS_FLOW \<longrightarrow>
            update_order_status ok ts oid new_status s =
              (Inr (200, ord\<lparr>order.status := st, order.updated_at := ts\<rparr>),
               s\<lparr>orders_db := (orders_db s)(oid \<mapsto>
                     ord\<lparr>order.status := st, order.updated_at := ts\<rparr>),
                 order_outbox := order_outbox s @
                   [\<lparr>topic = ''order-events'', event_type = ''order.status_changed'',
                     data = OrderStatusChanged oid (order.status ord) st,
                     accepted = ok\<rparr>]\<rparr>))
       \<and> length ORDER_STATUS_FLOW = 10 \<and> distinct ORDER_STATUS_FLOW"
proof (intro conjI)
  show "(fst (update_order_status ok ts oid new_status s) = Inl (Error 400 ''Invalid status''))
            = (new_status \<notin> Some ` set ORDER_STATUS_FLOW)"
    using assms by (cases new_status) (auto simp: update_order_status_def Let_def)
  show "new_status \<notin> Some ` set ORDER_STATUS_FLOW \<longrightarrow>
            snd (update_order_status ok ts oid new_status s) = s"
    using assms by (cases new_status) (auto simp: update_order_status_def Let_def)
  show "\<forall>st. new_status = Some st \<and> st \<in> set ORDER_STATUS_FLOW \<longrightarrow>
            update_order_status ok ts oid new_status s =
              (Inr (200, ord\<lparr>order.status := st, order.updated_at := ts\<rparr>),
               s\<lparr>orders_db := (orders_db s)(oid \<mapsto>
                     ord\<lparr>order.status := st, order.updated_at := ts\<rparr>),
                 order_outbox := order_outbox s @
                   [\<lparr>topic = ''order-events'', event_type = ''order.status_changed'',
                     data = OrderStatusChanged oid (order.status ord) st,
                     accepted = ok\<rparr>]\<rparr>)"
    using assms by (simp add: update_order_status_def publish_event_def Let_def)
  show "length ORDER_STATUS_FLOW = 10" by (simp add: ORDER_STATUS_FLOW_def)
  show "distinct ORDER_STATUS_FLOW" by (simp add: ORDER_STATUS_FLOW_def)
qed

text \<open>
  The sample order goes from \<open>completed\<close> back to \<open>pending\<close>; \<open>payment_failed\<close>, which
  is not in the list, is refused.
\<close>

theorem update_order_status_any_recognised_witness:
  "(let s = \<lparr>orders_db = initial_orders_db, order_outbox = []\<rparr>;
        r = update_order_status True ''2026-01-12T10:00:00Z'' ''order-sample001''
              (Some ''pending'') s;
        r' = update_order_status True ''2026-01-12T10:00:00Z'' ''order-sample001''
              (Some ''payment_failed'') s
    in map_option order.status (orders_db s ''order-sample001'') = Some ''completed''
       \<and> ''pending'' \<in> set ORDER_STATUS_FLOW
       \<and> map_option order.status (orders_db (snd r) ''order-sample001'') = Some ''pending''
       \<and> map data (order_outbox (snd r))
           = [OrderStatusChanged ''order-sample001'' ''completed'' ''pending'']
       \<and> Some ''payment_failed'' \<notin> Some ` set ORDER_STATUS_FLOW
       \<and> r' = (Inl (Error 400 ''Invalid status''), s))"
  using update_order_status_any_recognised
          [of "\<lparr>orders_db = initial_orders_db, order_outbox = []\<rparr>" "''order-sample001''"
              "the (initial_orders_db ''order-sample001'')"
              True "''2026-01-12T10:00:00Z''" "Some ''pending''"]
        update_order_status_any_recognised
          [of "\<lparr>orders_db = initial_orders_db, order_outbox = []\<rparr>" "''order-sample001''"
              "the (initial_orders_db ''order-sample001'')"
              True "''2026-01-12T10:00:00Z''" "Some ''payment_failed''"]
  by (simp add: initial_orders_db_def ORDER_STATUS_FLOW_def update_order_status_def Let_def)

subsection \<open>Payment service: refunds\<close>

text \<open>
  C8. \<open>refund_payment\<close> answers 404 \<open>Payment not found\<close> when no payment has the id and
  400 \<open>Can only refund completed payments\<close> when the payment's status is not
  \<open>completed\<close>, leaving the store and the outbox as they were in both cases. For a
  \<open>completed\<close> payment it sets the status to \<open>refunded\<close> (with a refund id and time) and
  publishes \<open>payment.refunded\<close>.
\<close>

theorem refund_payment_only_completed:
  "(payments_db s pid = None \<longrightarrow>
      refund_payment ok uuid8 ts pid s = (Inl (Error 404 ''Payment not found''), s))
   \<and> (\<forall>p. payments_db s pid = Some p \<and> payment.status p \<noteq> ''completed'' \<longrightarrow>
      refund_payment ok uuid8 ts pid s
        = (Inl (Error 400 ''Can only refund completed payments''), s))
   \<and> (\<forall>p. payments_db s pid = Some p \<and> payment.status p = ''completed'' \<longrightarrow>
      refund_payment ok uuid8 ts pid s =
        (Inr (200, p\<lparr>payment.status := ''refunded'', refund_id := Some (''ref-'' @ uuid8),
                     refunded_at := Some ts\<rparr>),
         s\<lparr>payments_db := (payments_db s)(pid \<mapsto>
               p\<lparr>payment.status := ''refunded'', refund_id := Some (''ref-'' @ uuid8),
                 refunded_at := Some ts\<rparr>),
           payment_outbox := payment_outbox s @
             [\<lparr>topic = ''payment-events'', event_type = ''payment.refunded'',
               data = PaymentRefunded pid (''ref-'' @ uuid8) (payment.order_id p) (amount p),
               accepted = ok\<rparr>]\<rparr>))"
  by (simp add: refund_payment_def publish_event_def PAYMENT_TOPIC_def Let_def)

text \<open>
  The sample payment is refunded once; the second refund, and the refund of an unknown
  payment, are refused and change nothing.
\<close>

theorem refund_payment_only_completed_witness:
  "(let s = \<lparr>payments_db = initial_payments_db, payment_outbox = []\<rparr>;
        r = refund_payment True ''5e5e5e5e'' ''2026-01-12T10:00:00Z'' ''pay-sample001'' s;
        r2 = refund_payment True ''6f6f6f6f'' ''2026-01-12T11:00:00Z'' ''pay-sample001'' (snd r);
        r3 = refund_payment True ''7a7a7a7a'' ''2026-01-12T12:00:00Z'' ''pay-deadbeef'' s
    in map_option payment.status (payments_db s ''pay-sample001'') = Some ''completed''
       \<and> map_option payment.status (payments_db (snd r) ''pay-sample001'') = Some ''refunded''
       \<and> map data (payment_outbox (snd r))
           = [PaymentRefunded ''pay-sample001'' ''ref-5e5e5e5e'' ''order-sample001'' (cents 16798)]
       \<and> r2 = (Inl (Error 400 ''Can only refund completed payments''), snd r)
       \<and> payments_db s ''pay-deadbeef'' = None
       \<and> r3 = (Inl (Error 404 ''Payment not found''), s))"
  using refund_payment_only_completed
          [of "\<lparr>payments_db = initial_payments_db, payment_outbox = []\<rparr>" "''pay-sample001''"
              True "''5e5e5e5e''" "''2026-01-12T10:00:00Z''"]
        refund_payment_only_completed
          [of "snd (refund_payment True ''5e5e5e5e'' ''2026-01-12T10:00:00Z'' ''pay-sample001''
                      \<lparr>payments_db = initial_payments_db, payment_outbox = []\<rparr>)"
              "''pay-sample001''" True "''6f6f6f6f''" "''2026-01-12T11:00:00Z''"]
        refund_payment_only_completed
          [of "\<lparr>payments_db = initial_payments_db, payment_outbox = []\<rparr>" "''pay-deadbeef''"
              True "''7a7a7a7a''" "''2026-01-12T12:00:00Z''"]
  by (simp add: initial_payments_db_def Let_def)

subsection \<open>Cart service: checkout\<close>

text \<open>
  C6. \<open>checkout\<close> on a stored cart without items answers 400 \<open>Cart is empty\<close> and changes
  nothing. On a cart with at least one item it computes the subtotal, the tax of 8% and
  the total, publishes \<open>order.created\<close> with the whole order, empties the cart and
  publishes \<open>cart.checkout_completed\<close>; the cart is emptied whatever the broker answered
  to \<open>order.created\<close> (the flag \<open>ok1\<close>).
\<close>

theorem checkout_empty_or_clears:
  assumes "carts_db s uid = Some c"
  shows "(cart.items c = [] \<longrightarrow>
           checkout ok1 ok2 uuid8 ts uid s = (Inl (Error 400 ''Cart is empty''), s))
       \<and> (cart.items c \<noteq> [] \<longrightarrow>
           (let sub = py_sum (map (\<lambda>i. fmul (unit_price i) (binary64 (of_int (quantity i))))
                                 (cart.items c));
                tot = py_round2 (fmul sub (cents 108));
                oid = ''order-'' @ uuid8
            in checkout ok1 ok2 uuid8 ts uid s =
                 (Inr (201, oid, tot),
                  s\<lparr>carts_db := (carts_db s)(uid \<mapsto>
                        c\<lparr>cart.items := [], cart.updated_at := ts\<rparr>),
                    cart_outbox := cart_outbox s @
                      [\<lparr>topic = ''order-events'', event_type = ''order.created'',
                        data = OrderCreated
                          \<lparr>order_data.order_id = Some oid,
                           order_data.user_id = Some uid,
                           order_data.items = Some (cart.items c),
                           order_data.subtotal = Some sub,
                           order_data.tax = Some (py_round2 (fmul sub (cents 8))),
                           order_data.total = Some tot,
                           order_data.status = Some ''pending'',
                           order_data.created_at = Some ts\<rparr>,
                        accepted = ok1\<rparr>,
                       \<lparr>topic = ''cart-events'', event_type = ''cart.checkout_completed'',
                        data = CheckoutCompleted uid oid tot, accepted = ok2\<rparr>]\<rparr>)))"
  using assms
  by (simp add: checkout_def checkout_order_def calculate_cart_total_def publish_event_def
      ORDER_TOPIC_def CART_TOPIC_def Let_def)

text \<open>
  The sample cart of \<open>user-001\<close> is emptied by a checkout whose \<open>order.created\<close> the
  broker refuses; a second checkout of the now empty cart is refused.
\<close>

theorem checkout_empty_or_clears_witness:
  "(let s = \<lparr>carts_db = initial_carts_db, cart_outbox = []\<rparr>;
        r = checkout False True ''1a2b3c4d'' ''2026-01-12T10:00:00Z'' ''user-001'' s;
        r2 = checkout True True ''2b3c4d5e'' ''2026-01-12T10:05:00Z'' ''user-001'' (snd r)
    in map_option cart.items (carts_db s ''user-001'') \<noteq> Some []
       \<and> fst r = Inr (201, ''order-1a2b3c4d'', cents 32398)
       \<and> map_option cart.items (carts_db (snd r) ''user-001'') = Some []
       \<and> map (\<lambda>p. (event_type p, accepted p)) (cart_outbox (snd r))
           = [(''order.created'', False), (''cart.checkout_completed'', True)]
       \<and> r2 = (Inl (Error 400 ''Cart is empty''), snd r))"
proof -
  have v: "py_round2 (fmul (py_sum [fmul (cents 14999) (binary64 2)]) (cents 108))
             = cents 32398"
    by code_simp
  show ?thesis
    using checkout_empty_or_clears
            [of "\<lparr>carts_db = initial_carts_db, cart_outbox = []\<rparr>" "''user-001''"
                "the (initial_carts_db ''user-001'')"
                False True "''1a2b3c4d''" "''2026-01-12T10:00:00Z''"]
          checkout_empty_or_clears
            [of "snd (checkout False True ''1a2b3c4d'' ''2026-01-12T10:00:00Z'' ''user-001''
                        \<lparr>carts_db = initial_carts_db, cart_outbox = []\<rparr>)"
                "''user-001''"
                "(the (initial_carts_db ''user-001''))
                   \<lparr>cart.items := [], cart.updated_at := ''2026-01-12T10:00:00Z''\<rparr>"
                True True "''2b3c4d5e''" "''2026-01-12T10:05:00Z''"]
    unfolding v [symmetric]
    by (simp add: initial_carts_db_def Let_def)
qed

subsection \<open>From checkout to the confirmed order: the amounts\<close>

text \<open>
  The total that the order service stores for a checkout: the cart's rounded total,
  plus 5.99, rounded again.
\<close>

lemma confirm_checkout_total:
  "order.total (confirm_order oid ts2 (checkout_order oid ts uid c))
     = py_round2 (fadd (py_round2 (fmul (calculate_cart_total c) (cents 108))) (cents 599))"
  by (simp add: confirm_order_def checkout_order_def SHIPPING_def)

text \<open>
  On the direct path the stored total is \<open>round(subtotal + tax + shipping, 2)\<close> by
  construction, for every price.
\<close>

lemma create_order_total:
  assumes "create_order ok uuid8 ts (Some u) (Some xs) s = (r, s')"
  shows "\<exists>ord. orders_db s' (''order-'' @ uuid8) = Some ord
           \<and> order.subtotal ord
               = Some (py_sum (map (\<lambda>i. fmul (unit_price i) (binary64 (of_int (quantity i)))) xs))
           \<and> order.total ord
               = py_round2 (fadd (fadd (the (order.subtotal ord)) (the (order.tax ord)))
                                 (order.shipping ord))"
  using assms by (auto simp: create_order_def Let_def)

lemma cart_150x2_amounts:
  "calculate_cart_total cart_150x2 = 300"
  "py_round2 (fmul 300 (cents 8)) = 24"
  "py_round2 (fmul 300 (cents 108)) = 324"
  "py_round2 (fadd 324 (cents 599)) = cents 32999"
  "cents 32999 \<noteq> cents 30599"
  by code_simp+

text \<open>
  C4 (as amended). For a checkout of a cart with the single line \<open>unit_price 150\<close>,
  \<open>quantity 2\<close>, the published \<open>order.created\<close> payload has subtotal 300, tax 24 and
  total 324: the total holds the tax, and no shipping. After the order service has
  confirmed the order, its stored total is 329.99 and its shipping 5.99: the fee is added
  once, to the total with tax.
\<close>

theorem checkout_150x2_amounts:
  "(let cs = \<lparr>carts_db = [''user-007'' \<mapsto> cart_150x2], cart_outbox = []\<rparr>;
        cs' = snd (checkout True True ''1a2b3c4d'' ''2026-01-12T10:00:00Z'' ''user-007'' cs);
        os' = snd (handle_order_event True True True ''9e9e9e9e'' ''2026-01-12T10:00:01Z''
                     (order_envelope ''evt-7'' (cart_outbox cs' ! 0))
                     \<lparr>orders_db = initial_orders_db, order_outbox = []\<rparr>)
    in data (cart_outbox cs' ! 0) =
         OrderCreated
           \<lparr>order_data.order_id = Some ''order-1a2b3c4d'',
            order_data.user_id = Some ''user-007'',
            order_data.items = Some (cart.items cart_150x2),
            order_data.subtotal = Some 300,
            order_data.tax = Some 24,
            order_data.total = Some 324,
            order_data.status = Some ''pending'',
            order_data.created_at = Some ''2026-01-12T10:00:00Z''\<rparr>
       \<and> map_option order.subtotal (orders_db os' ''order-1a2b3c4d'') = Some (Some 300)
       \<and> map_option order.tax (orders_db os' ''order-1a2b3c4d'') = Some (Some 24)
       \<and> map_option order.shipping (orders_db os' ''order-1a2b3c4d'') = Some (cents 599)
       \<and> map_option order.total (orders_db os' ''order-1a2b3c4d'') = Some (cents 32999))"
proof -
  note n = cart_150x2_amounts
  have c: "cart.items cart_150x2 \<noteq> []" by (simp add: cart_150x2_def)
  have o: "checkout_order ''order-1a2b3c4d'' ''2026-01-12T10:00:00Z'' ''user-007'' cart_150x2 =
             \<lparr>order_data.order_id = Some ''order-1a2b3c4d'',
              order_data.user_id = Some ''user-007'',
              order_data.items = Some (cart.items cart_150x2),
              order_data.subtotal = Some 300,
              order_data.tax = Some 24,
              order_data.total = Some 324,
              order_data.status = Some ''pending'',
              order_data.created_at = Some ''2026-01-12T10:00:00Z''\<rparr>"
    by (simp only: checkout_order_def n)
  have k: "checkout True True ''1a2b3c4d'' ''2026-01-12T10:00:00Z'' ''user-007''
             \<lparr>carts_db = [''user-007'' \<mapsto> cart_150x2], cart_outbox = []\<rparr> =
           (Inr (201, ''order-1a2b3c4d'', 324),
            \<lparr>carts_db = [''user-007'' \<mapsto>
                 cart_150x2\<lparr>cart.items := [], cart.updated_at := ''2026-01-12T10:00:00Z''\<rparr>],
             cart_outbox =
               [\<lparr>topic = ''order-events'', event_type = ''order.created'',
                 data = OrderCreated
                          (checkout_order ''order-1a2b3c4d'' ''2026-01-12T10:00:00Z''
                             ''user-007'' cart_150x2),
                 accepted = True\<rparr>,
                \<lparr>topic = ''cart-events'', event_type = ''cart.checkout_completed'',
                 data = CheckoutCompleted ''user-007'' ''order-1a2b3c4d'' 324,
                 accepted = True\<rparr>]\<rparr>)"
    using c by (simp add: checkout_def publish_event_def ORDER_TOPIC_def CART_TOPIC_def
        Let_def n)
  have e: "order_envelope ''evt-7''
             \<lparr>topic = ''order-events'', event_type = ''order.created'',
              data = OrderCreated
                       (checkout_order ''order-1a2b3c4d'' ''2026-01-12T10:00:00Z''
                          ''user-007'' cart_150x2),
              accepted = True\<rparr> =
           \<lparr>env_id = Some ''evt-7'', env_source = Some ''cart-service'',
            env_type = Some ''order.created'',
            env_data = Some (checkout_order ''order-1a2b3c4d'' ''2026-01-12T10:00:00Z''
                               ''user-007'' cart_150x2)\<rparr>"
    by (simp add: order_envelope_def)
  have f: "confirm_order ''order-1a2b3c4d'' ''2026-01-12T10:00:01Z''
             (checkout_order ''order-1a2b3c4d'' ''2026-01-12T10:00:00Z'' ''user-007'' cart_150x2)
           = \<lparr>order.order_id = ''order-1a2b3c4d'',
              order.user_id = Some ''user-007'',
              order.items = Some (cart.items cart_150x2),
              order.subtotal = Some 300,
              order.tax = Some 24,
              order.shipping = cents 599,
              order.total = cents 32999,
              order.status = ''confirmed'',
              order.payment_status = ''pending'',
              order.payment_id = None,
              order.payment_error = None,
              order.created_at = Some ''2026-01-12T10:00:00Z'',
              order.updated_at = ''2026-01-12T10:00:01Z''\<rparr>"
    unfolding o by (simp add: confirm_order_def SHIPPING_def n)
  show ?thesis
    unfolding Let_def k by (simp add: e handle_checkout_order f) (simp add: o)
qed

text \<open>
  C4 as stated has the published total at 300 and the confirmed total at 305.99.
\<close>

theorem checkout_150x2_counterexample:
  "data (cart_outbox
           (snd (checkout True True ''1a2b3c4d'' ''2026-01-12T10:00:00Z'' ''user-007''
                   \<lparr>carts_db = [''user-007'' \<mapsto> cart_150x2], cart_outbox = []\<rparr>)) ! 0)
     \<noteq> OrderCreated
           \<lparr>order_data.order_id = Some ''order-1a2b3c4d'',
            order_data.user_id = Some ''user-007'',
            order_data.items = Some (cart.items cart_150x2),
            order_data.subtotal = Some 300,
            order_data.tax = Some 24,
            order_data.total = Some 300,
            order_data.status = Some ''pending'',
            order_data.created_at = Some ''2026-01-12T10:00:00Z''\<rparr>
   \<and> map_option order.total
         (orders_db
            (snd (handle_order_event True True True ''9e9e9e9e'' ''2026-01-12T10:00:01Z''
                    (order_envelope ''evt-7''
                       (cart_outbox
                          (snd (checkout True True ''1a2b3c4d'' ''2026-01-12T10:00:00Z''
                                  ''user-007''
                                  \<lparr>carts_db = [''user-007'' \<mapsto> cart_150x2],
                                    cart_outbox = []\<rparr>)) ! 0))
                    \<lparr>orders_db = initial_orders_db, order_outbox = []\<rparr>))
            ''order-1a2b3c4d'')
     \<noteq> Some (cents 30599)"
proof -
  note n = cart_150x2_amounts
  have c: "cart.items cart_150x2 \<noteq> []" by (simp add: cart_150x2_def)
  have m: "carts_db \<lparr>carts_db = [''user-007'' \<mapsto> cart_150x2], cart_outbox = []\<rparr> ''user-007''
             = Some cart_150x2"
    by simp
  have tot: "order.total (confirm_order ''order-1a2b3c4d'' ''2026-01-12T10:00:01Z''
               (checkout_order ''order-1a2b3c4d'' ''2026-01-12T10:00:00Z'' ''user-007'' cart_150x2))
             = cents 32999"
    by (simp only: confirm_checkout_total n)
  have a: "data (cart_outbox
             (snd (checkout True True ''1a2b3c4d'' ''2026-01-12T10:00:00Z'' ''user-007''
                     \<lparr>carts_db = [''user-007'' \<mapsto> cart_150x2], cart_outbox = []\<rparr>)) ! 0)
           = OrderCreated (checkout_order ''order-1a2b3c4d'' ''2026-01-12T10:00:00Z''
                             ''user-007'' cart_150x2)"
    by (simp add: checkout_nonempty [OF m c])
  have b: "order_data.total (checkout_order ''order-1a2b3c4d'' ''2026-01-12T10:00:00Z''
                               ''user-007'' cart_150x2) = Some 324"
    by (simp add: checkout_order_def n)
  have nv: "order_envelope ''evt-7''
             (cart_outbox
                (snd (checkout True True ''1a2b3c4d'' ''2026-01-12T10:00:00Z'' ''user-007''
                        \<lparr>carts_db = [''user-007'' \<mapsto> cart_150x2], cart_outbox = []\<rparr>)) ! 0)
           = \<lparr>env_id = Some ''evt-7'', env_source = Some ''cart-service'',
              env_type = Some ''order.created'',
              env_data = Some (checkout_order ''order-1a2b3c4d'' ''2026-01-12T10:00:00Z''
                                 ''user-007'' cart_150x2)\<rparr>"
    using checkout_envelope [OF m c, of "''evt-7''" True True "''1a2b3c4d''"
        "''2026-01-12T10:00:00Z''"]
    by simp
  have "data (cart_outbox
             (snd (checkout True True ''1a2b3c4d'' ''2026-01-12T10:00:00Z'' ''user-007''
                     \<lparr>carts_db = [''user-007'' \<mapsto> cart_150x2], cart_outbox = []\<rparr>)) ! 0)
        \<noteq> OrderCreated
           \<lparr>order_data.order_id = Some ''order-1a2b3c4d'',
            order_data.user_id = Some ''user-007'',
            order_data.items = Some (cart.items cart_150x2),
            order_data.subtotal = Some 300,
            order_data.tax = Some 24,
            order_data.total = Some 300,
            order_data.status = Some ''pending'',
            order_data.created_at = Some ''2026-01-12T10:00:00Z''\<rparr>"
  proof
    assume "data (cart_outbox
             (snd (checkout True True ''1a2b3c4d'' ''2026-01-12T10:00:00Z'' ''user-007''
                     \<lparr>carts_db = [''user-007'' \<mapsto> cart_150x2], cart_outbox = []\<rparr>)) ! 0)
        = OrderCreated
           \<lparr>order_data.order_id = Some ''order-1a2b3c4d'',
            order_data.user_id = Some ''user-007'',
            order_data.items = Some (cart.items cart_150x2),
            order_data.subtotal = Some 300,
            order_data.tax = Some 24,
            order_data.total = Some 300,
            order_data.status = Some ''pending'',
            order_data.created_at = Some ''2026-01-12T10:00:00Z''\<rparr>"
    then have "checkout_order ''order-1a2b3c4d'' ''2026-01-12T10:00:00Z'' ''user-007'' cart_150x2
                = \<lparr>order_data.order_id = Some ''order-1a2b3c4d'',
            order_data.user_id = Some ''user-007'',
            order_data.items = Some (cart.items cart_150x2),
            order_data.subtotal = Some 300,
            order_data.tax = Some 24,
            order_data.total = Some 300,
            order_data.status = Some ''pending'',
            order_data.created_at = Some ''2026-01-12T10:00:00Z''\<rparr>"
      unfolding a by simp
    then have "order_data.total (checkout_order ''order-1a2b3c4d'' ''2026-01-12T10:00:00Z''
                 ''user-007'' cart_150x2) = Some 300"
      by simp
    with b show False by simp
  qed
  moreover have "map_option order.total
         (orders_db
            (snd (handle_order_event True True True ''9e9e9e9e'' ''2026-01-12T10:00:01Z''
                    (order_envelope ''evt-7''
                       (cart_outbox
                          (snd (checkout True True ''1a2b3c4d'' ''2026-01-12T10:00:00Z''
                                  ''user-007''
                                  \<lparr>carts_db = [''user-007'' \<mapsto> cart_150x2],
                                    cart_outbox = []\<rparr>)) ! 0))
                    \<lparr>orders_db = initial_orders_db, order_outbox = []\<rparr>))
            ''order-1a2b3c4d'')
     \<noteq> Some (cents 30599)"
    unfolding nv handle_checkout_order by (simp add: tot n)
  ultimately show ?thesis by simp
qed

text \<open>
  C5 (as amended). For every checkout of a non-empty cart whose subtotal is, to within
  a thousandth of a cent, a whole number of cents between 0 and \<open>10 ^ 12\<close> (ten
  billion units of currency), once the order service has confirmed the order: the stored
  order has the cart's items as its snapshot, its subtotal is the sum of
  \<open>unit_price * quantity\<close> over them, its shipping is 5.99, and its total is
  \<open>round(subtotal * 1.08 + shipping, 2)\<close> and also \<open>round(subtotal + tax + shipping, 2)\<close>,
  every operation being the one on floats. The fee is added once, at confirmation: the
  total published by the cart is \<open>round(subtotal * 1.08, 2)\<close> and the confirmed total is
  the rounded sum of that and 5.99.
\<close>

theorem confirmed_total_tax_and_shipping:
  assumes "carts_db cs uid = Some c" and "cart.items c \<noteq> []"
    and "0 \<le> n" and "n \<le> 1000000000000"
    and "\<bar>calculate_cart_total c * 100 - of_int n\<bar> \<le> 1 / 1000"
  shows "let sub = py_sum (map (\<lambda>i. fmul (unit_price i) (binary64 (of_int (quantity i))))
                             (cart.items c));
             cs' = snd (checkout ok1 ok2 uuid8 ts uid cs);
             sent = cart_outbox cs' ! length (cart_outbox cs);
             os' = snd (handle_order_event ok3 ok4 ok5 u2 ts2 (order_envelope eid sent) os)
         in \<exists>od ord.
              data sent = OrderCreated od
              \<and> order_data.total od = Some (py_round2 (fmul sub (cents 108)))
              \<and> orders_db os' (''order-'' @ uuid8) = Some ord
              \<and> order.items ord = Some (cart.items c)
              \<and> order.subtotal ord = Some sub
              \<and> order.tax ord = Some (py_round2 (fmul sub (cents 8)))
              \<and> order.shipping ord = cents 599
              \<and> order.total ord
                  = py_round2 (fadd (py_round2 (fmul sub (cents 108))) (order.shipping ord))
              \<and> order.total ord = py_round2 (fadd (fmul sub (cents 108)) (order.shipping ord))
              \<and> order.total ord
                  = py_round2 (fadd (fadd sub (py_round2 (fmul sub (cents 8))))
                                    (order.shipping ord))"
proof -
  let ?oid = "''order-'' @ uuid8"
  let ?sub = "py_sum (map (\<lambda>i. fmul (unit_price i) (binary64 (of_int (quantity i))))
                        (cart.items c))"
  let ?od = "checkout_order ?oid ts uid c"
  let ?ord = "confirm_order ?oid ts2 ?od"
  define m where "m = round_half_even (of_int (27 * n) / 25)"
  have sub: "calculate_cart_total c = ?sub" by (simp add: calculate_cart_total_def)
  have near: "\<bar>?sub * 100 - of_int n\<bar> \<le> 1 / 1000" using assms(5) by (simp only: sub)
  note pipe = cents_pipeline [OF assms(3,4) near, folded m_def]
  have sent: "cart_outbox (snd (checkout ok1 ok2 uuid8 ts uid cs)) ! length (cart_outbox cs)
                = \<lparr>topic = ''order-events'', event_type = ''order.created'',
                   data = OrderCreated ?od, accepted = ok1\<rparr>"
    by (simp add: checkout_nonempty [OF assms(1,2)] nth_append)
  have env: "order_envelope eid \<lparr>topic = ''order-events'', event_type = ''order.created'',
                                  data = OrderCreated ?od, accepted = ok1\<rparr>
               = \<lparr>env_id = Some eid, env_source = Some ''cart-service'',
                  env_type = Some ''order.created'', env_data = Some ?od\<rparr>"
    by (simp add: order_envelope_def)
  have f: "order_data.total ?od = Some (py_round2 (fmul ?sub (cents 108)))"
          "order.items ?ord = Some (cart.items c)"
          "order.subtotal ?ord = Some ?sub"
          "order.tax ?ord = Some (py_round2 (fmul ?sub (cents 8)))"
    by (simp_all add: confirm_order_def checkout_order_def sub)
  have sh: "order.shipping ?ord = cents 599"
    by (simp add: confirm_order_def SHIPPING_def)
  have d: "data \<lparr>topic = ''order-events'', event_type = ''order.created'',
                  data = OrderCreated ?od, accepted = ok1\<rparr> = OrderCreated ?od"
    by simp
  have st: "orders_db
              (snd (handle_order_event ok3 ok4 ok5 u2 ts2
                      \<lparr>env_id = Some eid, env_source = Some ''cart-service'',
                        env_type = Some ''order.created'', env_data = Some ?od\<rparr> os))
              ?oid = Some ?ord"
    by (simp add: handle_checkout_order)
  have t1: "order.total ?ord
              = py_round2 (fadd (py_round2 (fmul ?sub (cents 108))) (cents 599))"
    by (simp only: confirm_checkout_total sub)
  have v: "order.total ?ord = cents (m + 599)"
    by (simp only: t1 pipe)
  have t1': "order.total ?ord
               = py_round2 (fadd (py_round2 (fmul ?sub (cents 108))) (order.shipping ?ord))"
    and t2': "order.total ?ord = py_round2 (fadd (fmul ?sub (cents 108)) (order.shipping ?ord))"
    and t3': "order.total ?ord
                = py_round2 (fadd (fadd ?sub (py_round2 (fmul ?sub (cents 8))))
                                  (order.shipping ?ord))"
    by (simp_all only: sh v pipe)
  show ?thesis
    unfolding Let_def sent env
    by (rule exI [of _ ?od], rule exI [of _ ?ord], intro conjI)
       (fact d f sh st t1' t2' t3')+
qed

lemma sample_cart_amounts:
  "\<bar>calculate_cart_total (the (initial_carts_db ''user-001'')) * 100 - of_int 29998\<bar>
     \<le> 1 / 1000"
  "py_sum (map (\<lambda>i. fmul (unit_price i) (binary64 (of_int (quantity i))))
             (cart.items (the (initial_carts_db ''user-001'')))) = cents 29998"
  "py_round2 (fadd (fmul (cents 29998) (cents 108)) (cents 599)) = cents 32997"
  by code_simp+

text \<open>
  The sample cart (two units at 149.99) is checked out and confirmed at 329.97.
\<close>

theorem confirmed_total_tax_and_shipping_witness:
  "carts_db \<lparr>carts_db = initial_carts_db, cart_outbox = []\<rparr> ''user-001''
     = Some (the (initial_carts_db ''user-001''))
   \<and> cart.items (the (initial_carts_db ''user-001'')) \<noteq> []
   \<and> (0::int) \<le> 29998 \<and> (29998::int) \<le> 1000000000000
   \<and> \<bar>calculate_cart_total (the (initial_carts_db ''user-001'')) * 100 - of_int 29998\<bar>
        \<le> 1 / 1000
   \<and> map_option order.total
        (orders_db
           (snd (handle_order_event True True True ''9e9e9e9e'' ''2026-01-12T10:00:01Z''
                   (order_envelope ''evt-7''
                      (cart_outbox
                         (snd (checkout True True ''1a2b3c4d'' ''2026-01-12T10:00:00Z''
                                 ''user-001''
                                 \<lparr>carts_db = initial_carts_db, cart_outbox = []\<rparr>)) ! 0))
                   \<lparr>orders_db = initial_orders_db, order_outbox = []\<rparr>))
           ''order-1a2b3c4d'')
       = Some (cents 32997)"
proof -
  have m: "carts_db \<lparr>carts_db = initial_carts_db, cart_outbox = []\<rparr> ''user-001''
             = Some (the (initial_carts_db ''user-001''))"
    by (simp add: initial_carts_db_def)
  have c: "cart.items (the (initial_carts_db ''user-001'')) \<noteq> []"
    by (simp add: initial_carts_db_def)
  have n0: "(0::int) \<le> 29998" and nB: "(29998::int) \<le> 1000000000000" by simp_all
  note w = sample_cart_amounts(1)
  from confirmed_total_tax_and_shipping
         [OF m c n0 nB w, of True True "''1a2b3c4d''" "''2026-01-12T10:00:00Z''"
            True True True "''9e9e9e9e''" "''2026-01-12T10:00:01Z''" "''evt-7''"
            "\<lparr>orders_db = initial_orders_db, order_outbox = []\<rparr>"]
  have "map_option order.total
        (orders_db
           (snd (handle_order_event True True True ''9e9e9e9e'' ''2026-01-12T10:00:01Z''
                   (order_envelope ''evt-7''
                      (cart_outbox
                         (snd (checkout True True ''1a2b3c4d'' ''2026-01-12T10:00:00Z''
                                 ''user-001''
                                 \<lparr>carts_db = initial_carts_db, cart_outbox = []\<rparr>)) ! 0))
                   \<lparr>orders_db = initial_orders_db, order_outbox = []\<rparr>))
           ''order-1a2b3c4d'')
       = Some (cents 32997)"
    unfolding Let_def sample_cart_amounts(2) by (auto simp: sample_cart_amounts(3))
  with m c w show ?thesis by (simp only: simp_thms n0 nB)
qed

lemma cart_eighth_amounts:
  "calculate_cart_total cart_eighth = 1 / 8"
  "py_round2 (fadd (py_round2 (fmul (1 / 8) (cents 108))) (cents 599)) = cents 613"
  "py_round2 (fadd (fmul (1 / 8) (cents 108)) (cents 599)) = cents 612"
  "py_round2 (fadd (fadd (1 / 8) (py_round2 (fmul (1 / 8) (cents 8)))) (cents 599)) = cents 612"
  "cents 613 \<noteq> cents 612"
  by code_simp+

text \<open>
  C5 as stated covers every price. At a unit price of 0.125 the product
  \<open>subtotal * 1.08\<close> is a double just above 0.135: the cart rounds it to 0.14 and the
  confirmed total is 6.13, while \<open>subtotal * 1.08 + shipping\<close> and
  \<open>subtotal + tax + shipping\<close> are both the double 6.125, which \<open>round\<close> takes to 6.12.
\<close>

theorem confirmed_total_eighth_counterexample:
  "map_option order.total
     (orders_db
        (snd (handle_order_event True True True ''9e9e9e9e'' ''2026-01-12T10:00:01Z''
                (order_envelope ''evt-7''
                   (cart_outbox
                      (snd (checkout True True ''1a2b3c4d'' ''2026-01-12T10:00:00Z''
                              ''user-007''
                              \<lparr>carts_db = [''user-007'' \<mapsto> cart_eighth],
                                cart_outbox = []\<rparr>)) ! 0))
                \<lparr>orders_db = initial_orders_db, order_outbox = []\<rparr>))
        ''order-1a2b3c4d'')
     = Some (cents 613)
   \<and> py_round2 (fadd (fmul (calculate_cart_total cart_eighth) (cents 108)) (cents 599))
       = cents 612
   \<and> py_round2 (fadd (fadd (calculate_cart_total cart_eighth)
                            (py_round2 (fmul (calculate_cart_total cart_eighth) (cents 8))))
                      (cents 599))
       = cents 612
   \<and> cents 613 \<noteq> cents 612"
proof -
  note n = cart_eighth_amounts
  have c: "cart.items cart_eighth \<noteq> []" by (simp add: cart_eighth_def)
  have m: "carts_db \<lparr>carts_db = [''user-007'' \<mapsto> cart_eighth], cart_outbox = []\<rparr> ''user-007''
             = Some cart_eighth"
    by simp
  have nv: "order_envelope ''evt-7''
             (cart_outbox
                (snd (checkout True True ''1a2b3c4d'' ''2026-01-12T10:00:00Z'' ''user-007''
                        \<lparr>carts_db = [''user-007'' \<mapsto> cart_eighth], cart_outbox = []\<rparr>)) ! 0)
           = \<lparr>env_id = Some ''evt-7'', env_source = Some ''cart-service'',
              env_type = Some ''order.created'',
              env_data = Some (checkout_order ''order-1a2b3c4d'' ''2026-01-12T10:00:00Z''
                                 ''user-007'' cart_eighth)\<rparr>"
    using checkout_envelope [OF m c, of "''evt-7''" True True "''1a2b3c4d''"
        "''2026-01-12T10:00:00Z''"]
    by simp
  have tot: "order.total (confirm_order ''order-1a2b3c4d'' ''2026-01-12T10:00:01Z''
               (checkout_order ''order-1a2b3c4d'' ''2026-01-12T10:00:00Z'' ''user-007'' cart_eighth))
             = cents 613"
    by (simp only: confirm_checkout_total n)
  have a: "map_option order.total
     (orders_db
        (snd (handle_order_event True True True ''9e9e9e9e'' ''2026-01-12T10:00:01Z''
                (order_envelope ''evt-7''
                   (cart_outbox
                      (snd (checkout True True ''1a2b3c4d'' ''2026-01-12T10:00:00Z''
                              ''user-007''
                              \<lparr>carts_db = [''user-007'' \<mapsto> cart_eighth],
                                cart_outbox = []\<rparr>)) ! 0))
                \<lparr>orders_db = initial_orders_db, order_outbox = []\<rparr>))
        ''order-1a2b3c4d'')
     = Some (cents 613)"
    unfolding nv handle_checkout_order by (simp add: tot)
  show ?thesis
    using n(5) by (simp only: a n(1-4) simp_thms)
qed

subsection \<open>Product service: stock\<close>

text \<open>
  The synchronous path: \<open>update_stock\<close> refuses a change that would take the stock below
  zero, and a store without negative stock has none after it.
\<close>

lemma update_stock_insufficient:
  assumes "products_db s pid = Some p" and "stock p + qty < 0"
  shows "update_stock ok ts pid qty s = (Inl (Error 400 ''Insufficient stock''), s)"
  using assms by (simp add: update_stock_def Let_def)

lemma update_stock_floor:
  assumes "\<forall>k p. products_db s k = Some p \<longrightarrow> 0 \<le> stock p"
    and "products_db (snd (update_stock ok ts pid qty s)) k = Some p"
  shows "0 \<le> stock p"
proof (cases "products_db s pid")
  case None
  then show ?thesis using assms by (simp add: update_stock_def)
next
  case (Some q)
  show ?thesis
  proof (cases "stock q + qty < 0")
    case True
    then show ?thesis using assms Some by (simp add: update_stock_def Let_def)
  next
    case False
    then show ?thesis
      using assms Some by (cases "k = pid") (auto simp: update_stock_def Let_def)
  qed
qed

text \<open>
  C3. The claim asks for \<open>stock \<ge> 0\<close> on every stored product after any sequence of
  product operations. The handler of \<open>order.placed\<close> subtracts each line's quantity
  without the check that \<open>update_stock\<close> makes: on the initial store, where \<open>prod-001\<close>
  has a stock of 100, an order of 101 units leaves that product with a stock of -1.
\<close>

theorem order_placed_stock_below_zero:
  "map_option stock
     (products_db
        (snd (handle_order_event_product
                \<lparr>env_id = Some ''evt-3'', env_source = Some ''order-service'',
                 env_type = Some ''order.placed'',
                 env_data = [\<lparr>pl_product_id = Some ''prod-001'', pl_quantity = Some 101\<rparr>]\<rparr>
                \<lparr>products_db = initial_products_db, product_outbox = []\<rparr>))
        ''prod-001'')
     = Some (- 1)
   \<and> fst (update_stock True ''2026-01-12T10:00:00Z'' ''prod-001'' (- 101)
            \<lparr>products_db = initial_products_db, product_outbox = []\<rparr>)
     = Inl (Error 400 ''Insufficient stock'')"
  by (simp add: handle_order_event_product_def event_type_of_def initial_products_db_def
      update_stock_def Let_def)

subsection \<open>Cart service: price changes\<close>

lemma reprice_same:
  "product_id i = pid \<Longrightarrow> reprice pid p i = i\<lparr>unit_price := p\<rparr>"
  by (simp add: reprice_def)

lemma reprice_other: "product_id i \<noteq> pid \<Longrightarrow> reprice pid p i = i"
  by (simp add: reprice_def)

text \<open>
  For a price other than zero the handler does what C9 says: in every cart, the items
  of the product get the new unit price and nothing else changes.
\<close>

lemma handle_product_event_reprices:
  assumes "event_type_of ev = ''product.updated''"
    and "pr_id (env_data ev) = Some pid" and "pid \<noteq> []"
    and "pr_price (env_data ev) = Some p" and "p \<noteq> 0"
  shows "handle_product_event ev s =
           (Inr (200, ''processed''),
            s\<lparr>carts_db :=
                (\<lambda>u. map_option
                       (\<lambda>c. c\<lparr>cart.items := map (reprice pid p) (cart.items c)\<rparr>)
                       (carts_db s u))\<rparr>)"
  using assms by (simp add: handle_product_event_def truthy_str_def truthy_num_def)

lemma cents_12999_nonzero: "cents 12999 \<noteq> 0"
  by code_simp

text \<open>
  C9. The claim covers every changed price. A \<open>product.updated\<close> event that sets the
  price of \<open>prod-001\<close> to 0 fails the test \<open>if product_id and new_price\<close>, since \<open>0.0\<close> is
  false in Python: the cart of \<open>user-001\<close> keeps the unit price 149.99.
\<close>

theorem product_updated_zero_price_kept:
  "map_option (\<lambda>c. map unit_price (cart.items c))
     (carts_db
        (snd (handle_product_event
                \<lparr>env_id = Some ''evt-4'', env_source = Some ''product-service'',
                 env_type = Some ''product.updated'',
                 env_data = \<lparr>pr_id = Some ''prod-001'', pr_price = Some 0\<rparr>\<rparr>
                \<lparr>carts_db = initial_carts_db, cart_outbox = []\<rparr>))
        ''user-001'')
     = Some [cents 14999]
   \<and> map_option (\<lambda>c. map unit_price (cart.items c))
     (carts_db
        (snd (handle_product_event
                \<lparr>env_id = Some ''evt-5'', env_source = Some ''product-service'',
                 env_type = Some ''product.updated'',
                 env_data = \<lparr>pr_id = Some ''prod-001'', pr_price = Some (cents 12999)\<rparr>\<rparr>
                \<lparr>carts_db = initial_carts_db, cart_outbox = []\<rparr>))
        ''user-001'')
     = Some [cents 12999]"
  by (simp add: handle_product_event_def event_type_of_def truthy_str_def truthy_num_def
      initial_carts_db_def reprice_def cents_12999_nonzero)

end
